theory Spec2Isabelle
  imports Main
begin

unbundle bit_operations_syntax

section \<open>The NES core of EMUNESV0.py: address space, 6502 subset, iNES loader\<close>

text \<open>
  The embedding follows \<^verbatim>\<open>src/EMUNESV0.py\<close>, the variant with the full decode table
  (nine opcodes). \<^verbatim>\<open>src/EMU4K4.2.25$1.0.py\<close> has the same \<^verbatim>\<open>Memory\<close> and \<^verbatim>\<open>load_ines_rom\<close>, and a
  \<^verbatim>\<open>step\<close> with five of the nine branches, embedded as \<open>step_4k4\<close>. In \<^verbatim>\<open>src/EMUAI4K.py\<close> the
  functions \<^verbatim>\<open>read_word\<close> and \<^verbatim>\<open>step\<close> and the inline loader differ; they are embedded under the
  names \<open>read_word_4k\<close>, \<open>step_4k\<close> and \<open>load_rom_4k\<close>.

  Python integers are unbounded, so every number is an \<open>int\<close>; \<^verbatim>\<open>&\<close>, \<^verbatim>\<open>|\<close>, \<^verbatim>\<open>~\<close> and
  \<^verbatim>\<open><<\<close> are \<open>AND\<close>, \<open>OR\<close>, \<open>NOT\<close> and \<open>push_bit\<close> on \<open>int\<close>; \<^verbatim>\<open>%\<close> rounds as \<open>mod\<close> does.
  A \<^verbatim>\<open>bytes\<close> object and a Python list of numbers are both an \<open>int list\<close>. Every
  exception the modelled code can raise is a value of \<open>error\<close>.
\<close>

subsection \<open>Python primitives\<close>

datatype error = ZeroDivisionError | IndexError | ValueError

text \<open>Sequencing of two computations that may raise.\<close>

definition and_then :: "error + 'a \<Rightarrow> ('a \<Rightarrow> error + 'b) \<Rightarrow> error + 'b" where
  "and_then r k = (case r of Inl e \<Rightarrow> Inl e | Inr v \<Rightarrow> k v)"

text \<open>\<^verbatim>\<open>a % b\<close>: raises on a zero divisor.\<close>

definition py_mod :: "int \<Rightarrow> int \<Rightarrow> error + int" where
  "py_mod a b = (if b = 0 then Inl ZeroDivisionError else Inr (a mod b))"

text \<open>\<^verbatim>\<open>xs[i]\<close>: a negative index counts from the end, an index out of range raises.\<close>

definition getitem :: "int list \<Rightarrow> int \<Rightarrow> error + int" where
  "getitem xs i =
     (let n = int (length xs); j = (if i < 0 then i + n else i)
      in if 0 \<le> j \<and> j < n then Inr (xs ! nat j) else Inl IndexError)"

text \<open>\<^verbatim>\<open>xs[i] = v\<close> on a list, with the same index rule.\<close>

definition setitem :: "int list \<Rightarrow> int \<Rightarrow> int \<Rightarrow> error + int list" where
  "setitem xs i v =
     (let n = int (length xs); j = (if i < 0 then i + n else i)
      in if 0 \<le> j \<and> j < n then Inr (xs[nat j := v]) else Inl IndexError)"

subsection \<open>Memory map\<close>

definition RAM_SIZE :: int where
  "RAM_SIZE = 0x800"

record Memory =
  ram :: "int list"
  prg_rom :: "int list"

text \<open>\<^verbatim>\<open>Memory.__init__\<close>: \<^verbatim>\<open>[0] * RAM_SIZE\<close> and the buffer as given.\<close>

definition Memory_init :: "int list \<Rightarrow> Memory" where
  "Memory_init rom = \<lparr>ram = replicate (nat RAM_SIZE) 0, prg_rom = rom\<rparr>"

definition read :: "Memory \<Rightarrow> int \<Rightarrow> error + int" where
  "read m address =
     (if address < 0x2000 then
        and_then (py_mod address RAM_SIZE) (\<lambda>i. getitem (ram m) i)
      else if address \<ge> 0x8000 then
        and_then (py_mod (address - 0x8000) (int (length (prg_rom m))))
          (\<lambda>i. getitem (prg_rom m) i)
      else Inr 0)"

text \<open>\<^verbatim>\<open>Memory.write\<close> (the name \<open>write\<close> is reserved in Isabelle).\<close>

definition write_mem :: "Memory \<Rightarrow> int \<Rightarrow> int \<Rightarrow> error + Memory" where
  "write_mem m address val =
     (if address < 0x2000 then
        and_then (py_mod address RAM_SIZE) (\<lambda>i.
        and_then (setitem (ram m) i (val AND 0xFF)) (\<lambda>r.
          Inr (m\<lparr>ram := r\<rparr>)))
      else Inr m)"

definition read_word :: "Memory \<Rightarrow> int \<Rightarrow> error + int" where
  "read_word m address =
     and_then (read m address) (\<lambda>lo.
     and_then (read m ((address + 1) AND 0xFFFF)) (\<lambda>hi.
       Inr (push_bit 8 hi OR lo)))"

text \<open>
  \<^verbatim>\<open>Memory.read_word\<close> of \<^verbatim>\<open>src/EMUAI4K.py\<close>: the high byte is read at
  \<^verbatim>\<open>address + 1\<close>, without the mask.
\<close>

definition read_word_4k :: "Memory \<Rightarrow> int \<Rightarrow> error + int" where
  "read_word_4k m address =
     and_then (read m address) (\<lambda>lo.
     and_then (read m (address + 1)) (\<lambda>hi.
       Inr (push_bit 8 hi OR lo)))"

subsection \<open>CPU\<close>

record CPU =
  memory :: Memory
  PC :: int
  A :: int
  X :: int
  Y :: int
  SP :: int
  status :: int

text \<open>\<^verbatim>\<open>CPU.__init__\<close>: the reset vector is the only thing that can raise.\<close>

definition CPU_init :: "Memory \<Rightarrow> error + CPU" where
  "CPU_init m =
     and_then (read_word m 0xFFFC) (\<lambda>pc.
       Inr \<lparr>memory = m, PC = pc, A = 0, X = 0, Y = 0, SP = 0xFD, status = 0x24\<rparr>)"

text \<open>
  \<^verbatim>\<open>set_flag(flag, value)\<close>: the second argument is used for its truth value; the call
  sites pass a comparison or a masked number, which is true when it is not zero.
\<close>

definition set_flag :: "CPU \<Rightarrow> int \<Rightarrow> bool \<Rightarrow> CPU" where
  "set_flag c flag val =
     (if val then c\<lparr>status := status c OR flag\<rparr>
      else c\<lparr>status := status c AND NOT flag\<rparr>)"

definition get_flag :: "CPU \<Rightarrow> int \<Rightarrow> bool" where
  "get_flag c flag \<longleftrightarrow> status c AND flag \<noteq> 0"

definition step :: "CPU \<Rightarrow> error + CPU" where
  "step c0 =
     and_then (read (memory c0) (PC c0)) (\<lambda>opcode.
       let c = c0\<lparr>PC := (PC c0 + 1) AND 0xFFFF\<rparr> in
       if opcode = 0xA9 then
         and_then (read (memory c) (PC c)) (\<lambda>v.
           let c = c\<lparr>PC := (PC c + 1) AND 0xFFFF\<rparr>;
               c = c\<lparr>A := v\<rparr>;
               c = set_flag c 0x02 (A c = 0);
               c = set_flag c 0x80 (A c AND 0x80 \<noteq> 0)
           in Inr c)
       else if opcode = 0xA2 then
         and_then (read (memory c) (PC c)) (\<lambda>v.
           let c = c\<lparr>PC := (PC c + 1) AND 0xFFFF\<rparr>;
               c = c\<lparr>X := v\<rparr>;
               c = set_flag c 0x02 (X c = 0);
               c = set_flag c 0x80 (X c AND 0x80 \<noteq> 0)
           in Inr c)
       else if opcode = 0xA0 then
         and_then (read (memory c) (PC c)) (\<lambda>v.
           let c = c\<lparr>PC := (PC c + 1) AND 0xFFFF\<rparr>;
               c = c\<lparr>Y := v\<rparr>;
               c = set_flag c 0x02 (Y c = 0);
               c = set_flag c 0x80 (Y c AND 0x80 \<noteq> 0)
           in Inr c)
       else if opcode = 0x8D then
         and_then (read (memory c) (PC c)) (\<lambda>lo.
         and_then (read (memory c) ((PC c + 1) AND 0xFFFF)) (\<lambda>hi.
           let addr = lo OR push_bit 8 hi;
               c = c\<lparr>PC := (PC c + 2) AND 0xFFFF\<rparr>
           in and_then (write_mem (memory c) addr (A c)) (\<lambda>m.
                Inr (c\<lparr>memory := m\<rparr>))))
       else if opcode = 0x4C then
         and_then (read (memory c) (PC c)) (\<lambda>lo.
         and_then (read (memory c) ((PC c + 1) AND 0xFFFF)) (\<lambda>hi.
           Inr (c\<lparr>PC := lo OR push_bit 8 hi\<rparr>)))
       else if opcode = 0xEA then Inr c
       else if opcode = 0xE8 then
         (let c = c\<lparr>X := (X c + 1) AND 0xFF\<rparr>;
              c = set_flag c 0x02 (X c = 0);
              c = set_flag c 0x80 (X c AND 0x80 \<noteq> 0)
          in Inr c)
       else if opcode = 0xCA then
         (let c = c\<lparr>X := (X c - 1) AND 0xFF\<rparr>;
              c = set_flag c 0x02 (X c = 0);
              c = set_flag c 0x80 (X c AND 0x80 \<noteq> 0)
          in Inr c)
       else if opcode = 0x00 then Inr c
       else Inr c)"

text \<open>
  \<^verbatim>\<open>CPU.step\<close> of \<^verbatim>\<open>src/EMUAI4K.py\<close>: five branches, and the second operand byte read at
  \<^verbatim>\<open>self.PC + 1\<close> without the mask.
\<close>

definition step_4k :: "CPU \<Rightarrow> error + CPU" where
  "step_4k c0 =
     and_then (read (memory c0) (PC c0)) (\<lambda>opcode.
       let c = c0\<lparr>PC := (PC c0 + 1) AND 0xFFFF\<rparr> in
       if opcode = 0xA9 then
         and_then (read (memory c) (PC c)) (\<lambda>v.
           let c = c\<lparr>PC := (PC c + 1) AND 0xFFFF\<rparr>;
               c = c\<lparr>A := v\<rparr>;
               c = set_flag c 0x02 (A c = 0);
               c = set_flag c 0x80 (A c AND 0x80 \<noteq> 0)
           in Inr c)
       else if opcode = 0x8D then
         and_then (read (memory c) (PC c)) (\<lambda>lo.
         and_then (read (memory c) (PC c + 1)) (\<lambda>hi.
           let addr = lo OR push_bit 8 hi;
               c = c\<lparr>PC := (PC c + 2) AND 0xFFFF\<rparr>
           in and_then (write_mem (memory c) addr (A c)) (\<lambda>m.
                Inr (c\<lparr>memory := m\<rparr>))))
       else if opcode = 0x4C then
         and_then (read (memory c) (PC c)) (\<lambda>lo.
         and_then (read (memory c) (PC c + 1)) (\<lambda>hi.
           Inr (c\<lparr>PC := lo OR push_bit 8 hi\<rparr>)))
       else if opcode = 0xEA then Inr c
       else if opcode = 0x00 then Inr c
       else Inr c)"

text \<open>
  \<^verbatim>\<open>CPU.step\<close> of \<^verbatim>\<open>src/EMU4K4.2.25$1.0.py\<close>: the same five branches, with every operand
  address masked.
\<close>

definition step_4k4 :: "CPU \<Rightarrow> error + CPU" where
  "step_4k4 c0 =
     and_then (read (memory c0) (PC c0)) (\<lambda>opcode.
       let c = c0\<lparr>PC := (PC c0 + 1) AND 0xFFFF\<rparr> in
       if opcode = 0xA9 then
         and_then (read (memory c) (PC c)) (\<lambda>v.
           let c = c\<lparr>PC := (PC c + 1) AND 0xFFFF\<rparr>;
               c = c\<lparr>A := v\<rparr>;
               c = set_flag c 0x02 (A c = 0);
               c = set_flag c 0x80 (A c AND 0x80 \<noteq> 0)
           in Inr c)
       else if opcode = 0x8D then
         and_then (read (memory c) (PC c)) (\<lambda>lo.
         and_then (read (memory c) ((PC c + 1) AND 0xFFFF)) (\<lambda>hi.
           let addr = lo OR push_bit 8 hi;
               c = c\<lparr>PC := (PC c + 2) AND 0xFFFF\<rparr>
           in and_then (write_mem (memory c) addr (A c)) (\<lambda>m.
                Inr (c\<lparr>memory := m\<rparr>))))
       else if opcode = 0x4C then
         and_then (read (memory c) (PC c)) (\<lambda>lo.
         and_then (read (memory c) ((PC c + 1) AND 0xFFFF)) (\<lambda>hi.
           Inr (c\<lparr>PC := lo OR push_bit 8 hi\<rparr>)))
       else if opcode = 0xEA then Inr c
       else if opcode = 0x00 then Inr c
       else Inr c)"

text \<open>Repeated \<^verbatim>\<open>step()\<close> calls, as the driver makes them; the first exception ends the run.\<close>

fun steps :: "nat \<Rightarrow> CPU \<Rightarrow> error + CPU" where
  "steps 0 c = Inr c"
| "steps (Suc n) c = and_then (step c) (steps n)"

subsection \<open>iNES ROM loader\<close>

text \<open>
  The open file is the list of bytes not yet read. \<^verbatim>\<open>f.read(n)\<close> returns at most \<open>n\<close>
  bytes and moves past them; a negative \<open>n\<close> reads to the end.
\<close>

definition file_read :: "int list \<Rightarrow> int \<Rightarrow> int list \<times> int list" where
  "file_read f n = (if n < 0 then (f, []) else (take (nat n) f, drop (nat n) f))"

definition load_ines_rom :: "int list \<Rightarrow> error + (int list \<times> int list)" where
  "load_ines_rom contents =
     (let (header, f) = file_read contents 16 in
      if take 4 header \<noteq> [0x4E, 0x45, 0x53, 0x1A] then Inl ValueError
      else
        and_then (getitem header 4) (\<lambda>h4.
        and_then (getitem header 5) (\<lambda>h5.
          let prg_rom_size = h4 * 16 * 1024;
              chr_rom_size = h5 * 8 * 1024
          in and_then (getitem header 6) (\<lambda>h6.
               let f = (if h6 AND 0x04 \<noteq> 0 then snd (file_read f 512) else f);
                   (prg, f) = file_read f prg_rom_size;
                   chr = (if chr_rom_size > 0 then fst (file_read f chr_rom_size) else [])
               in Inr (prg, chr)))))"

text \<open>
  \<^verbatim>\<open>src/EMUAI4K.py\<close> has no loader function: \<^verbatim>\<open>EmulatorApp.__init__\<close> reads the file inline,
  with no signature check and no trainer skip.
\<close>

definition load_rom_4k :: "int list \<Rightarrow> error + (int list \<times> int list)" where
  "load_rom_4k contents =
     (let (header, f) = file_read contents 16 in
      and_then (getitem header 4) (\<lambda>h4.
        let prg_rom_size = 16384 * h4 in
        and_then (getitem header 5) (\<lambda>h5.
          let chr_rom_size = 8192 * h5;
              (prg, f) = file_read f prg_rom_size;
              (chr, f) = file_read f chr_rom_size
          in Inr (prg, chr))))"

subsection \<open>Invariants used in the statements\<close>

definition is_byte :: "int \<Rightarrow> bool" where
  "is_byte v \<longleftrightarrow> 0 \<le> v \<and> v \<le> 255"

text \<open>The shape \<^verbatim>\<open>Memory.__init__\<close> establishes: 2048 RAM cells.\<close>

definition ram_sized :: "Memory \<Rightarrow> bool" where
  "ram_sized m \<longleftrightarrow> length (ram m) = 2048"

text \<open>The RAM invariant: 2048 cells, each a byte.\<close>

definition ram_bytes :: "Memory \<Rightarrow> bool" where
  "ram_bytes m \<longleftrightarrow> ram_sized m \<and> list_all is_byte (ram m)"

text \<open>
  The invariant of a running CPU: its memory holds bytes, the PRG-ROM is not empty (the
  constructor raised otherwise), and the registers are in range.
\<close>

definition cpu_inv :: "CPU \<Rightarrow> bool" where
  "cpu_inv c \<longleftrightarrow>
     ram_bytes (memory c) \<and> list_all is_byte (prg_rom (memory c)) \<and> prg_rom (memory c) \<noteq> [] \<and>
     is_byte (A c) \<and> is_byte (X c) \<and> is_byte (Y c) \<and> 0 \<le> PC c \<and> PC c \<le> 0xFFFF"

subsection \<open>Sequences of accesses\<close>

text \<open>
  A caller's sequence of \<^verbatim>\<open>read\<close> and \<^verbatim>\<open>write\<close> calls on one \<^verbatim>\<open>Memory\<close> object. A read
  returns a number and assigns nothing; the first exception ends the sequence.
\<close>

datatype mem_op = Rd int | Wr int int

fun run_ops :: "Memory \<Rightarrow> mem_op list \<Rightarrow> error + Memory" where
  "run_ops m [] = Inr m"
| "run_ops m (Rd a # ops) = and_then (read m a) (\<lambda>_. run_ops m ops)"
| "run_ops m (Wr a v # ops) = and_then (write_mem m a v) (\<lambda>m'. run_ops m' ops)"

section \<open>Basic facts\<close>

lemma mask16: "(k::int) AND 0xFFFF = k mod 0x10000"
proof -
  have "k AND mask 16 = k mod 2 ^ 16"
    by (simp only: take_bit_eq_mask [symmetric] take_bit_eq_mod)
  then show ?thesis by (simp add: mask_eq_exp_minus_1)
qed

lemma mask8: "(k::int) AND 0xFF = k mod 0x100"
proof -
  have "k AND mask 8 = k mod 2 ^ 8"
    by (simp only: take_bit_eq_mask [symmetric] take_bit_eq_mod)
  then show ?thesis by (simp add: mask_eq_exp_minus_1)
qed

lemma and_then_Inr [simp]: "and_then (Inr v) k = k v"
  by (simp add: and_then_def)

lemma and_then_Inl [simp]: "and_then (Inl e) k = Inl e"
  by (simp add: and_then_def)

lemma and_then_eq_Inr:
  "and_then r k = Inr y \<longleftrightarrow> (\<exists>v. r = Inr v \<and> k v = Inr y)"
  by (cases r) simp_all

lemma getitem_in_range:
  "0 \<le> i \<Longrightarrow> i < int (length xs) \<Longrightarrow> getitem xs i = Inr (xs ! nat i)"
  by (simp add: getitem_def)

lemma setitem_in_range:
  "0 \<le> i \<Longrightarrow> i < int (length xs) \<Longrightarrow> setitem xs i v = Inr (xs[nat i := v])"
  by (simp add: setitem_def)

lemma read_ram:
  "ram_sized m \<Longrightarrow> a < 0x2000 \<Longrightarrow> read m a = Inr (ram m ! nat (a mod 0x800))"
  by (simp add: read_def ram_sized_def RAM_SIZE_def py_mod_def getitem_in_range)

lemma read_unmapped:
  "0x2000 \<le> a \<Longrightarrow> a < 0x8000 \<Longrightarrow> read m a = Inr 0"
  by (simp add: read_def)

lemma read_rom:
  "prg_rom m \<noteq> [] \<Longrightarrow> 0x8000 \<le> a \<Longrightarrow>
   read m a = Inr (prg_rom m ! nat ((a - 0x8000) mod int (length (prg_rom m))))"
  by (simp add: read_def py_mod_def getitem_in_range)

lemma read_total:
  "ram_sized m \<Longrightarrow> prg_rom m \<noteq> [] \<Longrightarrow> \<exists>v. read m a = Inr v"
  using read_ram [of m a] read_unmapped [of a m] read_rom [of m a]
  by (cases "a < 0x2000"; cases "a < 0x8000") auto

lemma write_mem_ram:
  "ram_sized m \<Longrightarrow> a < 0x2000 \<Longrightarrow>
   write_mem m a v = Inr (m\<lparr>ram := (ram m)[nat (a mod 0x800) := v AND 0xFF]\<rparr>)"
  by (simp add: write_mem_def ram_sized_def RAM_SIZE_def py_mod_def setitem_in_range)

lemma write_mem_dropped: "0x2000 \<le> a \<Longrightarrow> write_mem m a v = Inr m"
  by (simp add: write_mem_def)

lemma write_mem_total:
  "ram_sized m \<Longrightarrow> \<exists>m'. write_mem m a v = Inr m' \<and> ram_sized m' \<and> prg_rom m' = prg_rom m"
  using write_mem_ram [of m a v] write_mem_dropped [of a m v]
  by (cases "a < 0x2000") (auto simp: ram_sized_def)

section \<open>Address space\<close>

text \<open>
  Claim C1 (read is total for every 16-bit address and every PRG-ROM buffer, including
  one of length zero). The code divides by \<^verbatim>\<open>len(self.prg_rom)\<close>: a file that holds only
  a valid header loads with an empty PRG-ROM, and on the memory built from it a read at
  0x8000 raises ZeroDivisionError, as does the construction of the CPU, which reads the
  reset vector.
\<close>

theorem read_empty_rom_raises:
  "load_ines_rom [0x4E, 0x45, 0x53, 0x1A, 0, 0, 0, 0, 0, 0, 0, 0, 0, 0, 0, 0] = Inr ([], []) \<and>
   read (Memory_init []) 0x8000 = Inl ZeroDivisionError \<and>
   CPU_init (Memory_init []) = Inl ZeroDivisionError"
  by (simp add: load_ines_rom_def file_read_def getitem_def CPU_init_def read_word_def
      read_def Memory_init_def py_mod_def)

text \<open>
  With a buffer that is not empty the read is total: \<open>read_total\<close> above. Unmapped
  addresses read as 0: \<open>read_unmapped\<close>.
\<close>

text \<open>
  Claim C2 as stated (for every \<open>a\<close> in [0, 0x2000) and \<open>k\<close> in {0, 1, 2, 3},
  \<open>read (a + k * 0x800)\<close> equals \<open>read (a mod 0x800)\<close>) fails where \<open>a + k * 0x800\<close>
  leaves the RAM window: after \<open>write 0 1\<close>, with \<open>a = 0x800\<close> and \<open>k = 3\<close>, the read at
  0x2000 gives 0 and the read at \<open>a mod 0x800 = 0\<close> gives 1.
\<close>

theorem ram_mirroring_counterexample:
  "write_mem (Memory_init [0xEA]) 0 1 = Inr \<lparr>ram = (replicate 2048 0)[0 := 1], prg_rom = [0xEA]\<rparr> \<and>
   read \<lparr>ram = (replicate 2048 0)[0 := 1], prg_rom = [0xEA]\<rparr> (0x800 + 3 * 0x800) = Inr 0 \<and>
   read \<lparr>ram = (replicate 2048 0)[0 := 1], prg_rom = [0xEA]\<rparr> (0x800 mod 0x800) = Inr 1"
  by (simp add: write_mem_def Memory_init_def RAM_SIZE_def py_mod_def setitem_def read_def getitem_def)

lemma mirror_index:
  "k \<in> {0, 1, 2, 3} \<Longrightarrow> (a + k * 0x800) mod 0x800 = a mod (0x800::int)"
  by auto

lemma ram_sized_write_mem:
  "ram_sized m \<Longrightarrow> write_mem m a v = Inr m' \<Longrightarrow> ram_sized m'"
  using write_mem_total [of m a v] by auto

text \<open>
  Claim C2, amended: for every \<open>a \<ge> 0\<close> and \<open>k\<close> in {0, 1, 2, 3} with
  \<open>a + k * 0x800 < 0x2000\<close>, \<open>read (a + k * 0x800)\<close> and \<open>read (a mod 0x800)\<close> return the same
  RAM cell, in any memory with its 2048 cells and again after any write to it (which
  succeeds).
\<close>

theorem ram_mirroring:
  assumes "ram_sized m" and "0 \<le> a" and "k \<in> {0, 1, 2, 3}" and "a + k * 0x800 < 0x2000"
  shows "read m (a + k * 0x800) = Inr (ram m ! nat (a mod 0x800)) \<and>
         read m (a mod 0x800) = Inr (ram m ! nat (a mod 0x800)) \<and>
         (\<exists>m'. write_mem m w v = Inr m' \<and>
           read m' (a + k * 0x800) = Inr (ram m' ! nat (a mod 0x800)) \<and>
           read m' (a mod 0x800) = Inr (ram m' ! nat (a mod 0x800)))"
proof -
  have low: "a mod 0x800 < 0x2000"
    using pos_mod_bound [of "0x800" a] by linarith
  have both: "read n (a + k * 0x800) = Inr (ram n ! nat (a mod 0x800)) \<and>
              read n (a mod 0x800) = Inr (ram n ! nat (a mod 0x800))" if "ram_sized n" for n
    using that assms(3,4) low by (simp add: read_ram mirror_index)
  obtain m' where w: "write_mem m w v = Inr m'" and s: "ram_sized m'"
    using write_mem_total [OF assms(1)] by blast
  show ?thesis
    using both [OF assms(1)] both [OF s] w by blast
qed

theorem ram_mirroring_witness:
  "read (Memory_init [0xEA]) (0x123 + 3 * 0x800) = Inr 0 \<and>
   (\<exists>m'. write_mem (Memory_init [0xEA]) 0x923 7 = Inr m' \<and>
      read m' (0x123 + 3 * 0x800) = Inr 7 \<and> read m' (0x123 mod 0x800) = Inr 7)"
proof -
  have s: "ram_sized (Memory_init [0xEA])"
    by (simp add: ram_sized_def Memory_init_def RAM_SIZE_def)
  have w: "write_mem (Memory_init [0xEA]) 0x923 7 = Inr \<lparr>ram = (replicate 2048 0)[0x123 := 7], prg_rom = [0xEA]\<rparr>"
    by (simp add: write_mem_def Memory_init_def RAM_SIZE_def py_mod_def setitem_def)
  show ?thesis
    using ram_mirroring [OF s, of "0x123" 3 "0x923" 7] w
    by (simp add: Memory_init_def RAM_SIZE_def)
qed

subsection \<open>RAM cells stay bytes\<close>

lemma is_byte_mask8: "is_byte (v AND 0xFF)"
  by (simp add: mask8 is_byte_def)

lemma ram_bytes_init: "ram_bytes (Memory_init rom)"
  by (simp add: ram_bytes_def ram_sized_def Memory_init_def RAM_SIZE_def list_all_iff is_byte_def)

lemma list_all_update:
  "list_all P xs \<Longrightarrow> P v \<Longrightarrow> list_all P (xs[i := v])"
  using set_update_subset_insert [of xs i v] by (auto simp: list_all_iff)

lemma ram_bytes_write_mem:
  assumes "ram_bytes m" and "write_mem m a v = Inr m'"
  shows "ram_bytes m'"
proof (cases "a < 0x2000")
  case True
  with assms show ?thesis
    by (auto simp: ram_bytes_def write_mem_ram ram_sized_def list_all_update is_byte_mask8)
next
  case False
  with assms show ?thesis by (simp add: write_mem_dropped)
qed

lemma prg_rom_write_mem:
  "ram_sized m \<Longrightarrow> write_mem m a v = Inr m' \<Longrightarrow> prg_rom m' = prg_rom m"
  using write_mem_total [of m a v] by auto

lemma read_after_write_mem:
  "ram_sized m \<Longrightarrow> a < 0x2000 \<Longrightarrow>
   \<exists>m'. write_mem m a v = Inr m' \<and> read m' a = Inr (v mod 256)"
  by (simp add: write_mem_ram read_ram ram_sized_def mask8)

lemma read_raises:
  assumes "ram_sized m" and "read m a = Inl e"
  shows "e = ZeroDivisionError \<and> prg_rom m = []"
proof -
  have "prg_rom m = []"
    using read_total [OF assms(1), of a] assms(2) by auto
  moreover have "0x8000 \<le> a"
  proof (rule ccontr)
    assume "\<not> 0x8000 \<le> a"
    then have "\<exists>v. read m a = Inr v"
      using assms(1) read_ram [of m a] read_unmapped [of a m] by (cases "a < 0x2000") auto
    with assms(2) show False by simp
  qed
  ultimately show ?thesis
    using assms(2) by (simp add: read_def py_mod_def)
qed

lemma run_ops_ram_bytes:
  "ram_bytes m \<Longrightarrow> run_ops m ops = Inr m' \<Longrightarrow> ram_bytes m'"
proof (induction m ops rule: run_ops.induct)
  case (1 m)
  then show ?case by simp
next
  case (2 m a ops)
  then show ?case by (auto simp: and_then_eq_Inr)
next
  case (3 m a v ops)
  then show ?case by (auto simp: and_then_eq_Inr dest: ram_bytes_write_mem)
qed

lemma run_ops_raises:
  "ram_sized m \<Longrightarrow> run_ops m ops = Inl e \<Longrightarrow> e = ZeroDivisionError \<and> prg_rom m = []"
proof (induction m ops rule: run_ops.induct)
  case (1 m)
  then show ?case by simp
next
  case (2 m a ops)
  show ?case
  proof (cases "read m a")
    case (Inl e')
    with 2 show ?thesis using read_raises [of m a e'] by simp
  next
    case (Inr x)
    with 2 show ?thesis by simp
  qed
next
  case (3 m a v ops)
  obtain m' where w: "write_mem m a v = Inr m'" and s: "ram_sized m'" and r: "prg_rom m' = prg_rom m"
    using write_mem_total [OF 3(2)] by blast
  with 3 show ?case by simp
qed

text \<open>
  Claim C10: \<open>write\<close> stores \<open>value mod 256\<close> for any integer \<open>value\<close>, and every cell of
  the 2048-cell RAM is in [0, 255] from the zero-initialised memory through any sequence
  of reads and writes. A sequence ends early only by the ZeroDivisionError of a read above
  0x8000 on an empty PRG-ROM; the RAM of every state it reaches is covered, a prefix of a
  sequence being a sequence.
\<close>

theorem ram_cells_are_bytes:
  assumes "ram_sized m" and "a < 0x2000"
  shows "(\<exists>m'. write_mem m a v = Inr m' \<and> read m' a = Inr (v mod 256)) \<and>
         ram_bytes (Memory_init rom) \<and>
         (case run_ops (Memory_init rom) ops of
            Inr m1 \<Rightarrow> ram_bytes m1
          | Inl e \<Rightarrow> e = ZeroDivisionError \<and> rom = [])"
proof -
  have i: "ram_bytes (Memory_init rom)" by (rule ram_bytes_init)
  then have s: "ram_sized (Memory_init rom)" by (simp add: ram_bytes_def)
  have "ram_bytes m1" if "run_ops (Memory_init rom) ops = Inr m1" for m1
    using run_ops_ram_bytes [OF i that] .
  moreover have "e = ZeroDivisionError \<and> rom = []" if "run_ops (Memory_init rom) ops = Inl e" for e
    using run_ops_raises [OF s that] by (simp add: Memory_init_def)
  ultimately show ?thesis
    using read_after_write_mem [OF assms] i by (simp split: sum.split)
qed

theorem ram_cells_are_bytes_witness:
  "(\<exists>m'. write_mem (Memory_init [0xEA]) 0x1801 300 = Inr m' \<and> read m' 0x1801 = Inr 44) \<and>
   ram_bytes (Memory_init [0xEA]) \<and>
   (\<exists>m1. run_ops (Memory_init [0xEA]) [Wr 0 (- 1), Rd 0x8000, Rd 0] = Inr m1 \<and> ram_bytes m1)"
proof -
  have s: "ram_sized (Memory_init [0xEA])"
    by (simp add: ram_sized_def Memory_init_def RAM_SIZE_def)
  have r: "run_ops (Memory_init [0xEA]) [Wr 0 (- 1), Rd 0x8000, Rd 0] =
           Inr \<lparr>ram = (replicate 2048 0)[0 := 255], prg_rom = [0xEA]\<rparr>"
    by (simp add: write_mem_def Memory_init_def RAM_SIZE_def py_mod_def setitem_def read_def
        getitem_def mask8)
  show ?thesis
    using ram_cells_are_bytes [OF s, of "0x1801" 300 "[0xEA]" "[Wr 0 (- 1), Rd 0x8000, Rd 0]"] r
    by simp
qed

section \<open>Word fetch and reset vector\<close>

text \<open>
  The \<^verbatim>\<open>read_word\<close> of \<^verbatim>\<open>src/EMUAI4K.py\<close> agrees with the one of \<^verbatim>\<open>src/EMUNESV0.py\<close> at every
  address from -1 to 0xFFFE, the reset vector 0xFFFC (its only call) among them.
\<close>

lemma read_word_4k_agrees:
  assumes "- 1 \<le> a" and "a < 0xFFFF"
  shows "read_word_4k m a = read_word m a"
proof -
  have "(a + 1) mod 0x10000 = a + 1"
    using assms by simp
  then show ?thesis
    by (simp add: read_word_4k_def read_word_def mask16)
qed

text \<open>
  Claim C4 (for every address \<open>a\<close>, \<open>read_word a\<close> is \<open>read a\<close> or-ed with
  \<open>read ((a + 1) mod 0x10000)\<close> shifted left by 8; reset vector 34 12 gives \<open>PC = 0x1234\<close>).
  The \<^verbatim>\<open>read_word\<close> of \<^verbatim>\<open>src/EMUAI4K.py\<close> reads the high byte at \<^verbatim>\<open>address + 1\<close> without the
  mask that the same function has in the other two files. At 0xFFFF, on the memory left by
  \<^verbatim>\<open>write(0, 0x56)\<close> over the PRG-ROM 34 12 99 AB, the low byte is 0xAB and the byte at
  \<open>(0xFFFF + 1) mod 0x10000 = 0\<close> is 0x56, so the claimed word is 0x56AB, which the masked
  \<open>read_word\<close> returns; the unmasked one reads 0x10000, which \<^verbatim>\<open>read\<close> maps to PRG-ROM entry 0,
  and returns 0x34AB.
\<close>

theorem read_word_4k_high_byte_unmasked:
  "write_mem (Memory_init [0x34, 0x12, 0x99, 0xAB]) 0 0x56
     = Inr \<lparr>ram = (replicate 2048 0)[0 := 0x56], prg_rom = [0x34, 0x12, 0x99, 0xAB]\<rparr> \<and>
   read \<lparr>ram = (replicate 2048 0)[0 := 0x56], prg_rom = [0x34, 0x12, 0x99, 0xAB]\<rparr> 0xFFFF
     = Inr 0xAB \<and>
   read \<lparr>ram = (replicate 2048 0)[0 := 0x56], prg_rom = [0x34, 0x12, 0x99, 0xAB]\<rparr>
       ((0xFFFF + 1) mod 0x10000)
     = Inr 0x56 \<and>
   (0xAB::int) OR push_bit 8 0x56 = 0x56AB \<and>
   read_word \<lparr>ram = (replicate 2048 0)[0 := 0x56], prg_rom = [0x34, 0x12, 0x99, 0xAB]\<rparr> 0xFFFF
     = Inr 0x56AB \<and>
   read_word_4k \<lparr>ram = (replicate 2048 0)[0 := 0x56], prg_rom = [0x34, 0x12, 0x99, 0xAB]\<rparr> 0xFFFF
     = Inr 0x34AB"
  by (simp add: write_mem_def Memory_init_def setitem_def read_word_def read_word_4k_def read_def
      RAM_SIZE_def py_mod_def getitem_def push_bit_eq_mult)

text \<open>
  On the masked \<open>read_word\<close> of \<^verbatim>\<open>src/EMUNESV0.py\<close> and \<^verbatim>\<open>src/EMU4K4.2.25$1.0.py\<close> the word is
  \<open>read a\<close> or-ed with \<open>read ((a + 1) mod 0x10000)\<close> shifted left by 8 at every address, each
  byte fetched by \<open>read\<close> with its own mapping; it returns on every memory with its 2048 RAM
  cells and a non-empty PRG-ROM; and a CPU built over a memory that reads 0x34 at 0xFFFC
  and 0x12 at 0xFFFD starts at \<open>PC = 0x1234\<close>. By \<open>read_word_4k_agrees\<close> the reset vector is
  read the same way in \<^verbatim>\<open>src/EMUAI4K.py\<close>.
\<close>

lemma read_word_little_endian:
  "(read m a = Inr lo \<and> read m ((a + 1) mod 0x10000) = Inr hi \<longrightarrow>
      read_word m a = Inr (lo OR push_bit 8 hi)) \<and>
   (ram_sized m \<and> prg_rom m \<noteq> [] \<longrightarrow> (\<exists>w. read_word m a = Inr w)) \<and>
   (read m 0xFFFC = Inr 0x34 \<and> read m 0xFFFD = Inr 0x12 \<longrightarrow>
      (\<exists>c. CPU_init m = Inr c \<and> PC c = 0x1234))"
proof -
  have 1: "read_word m a = Inr (lo OR push_bit 8 hi)"
    if "read m a = Inr lo" and "read m ((a + 1) mod 0x10000) = Inr hi" for lo hi
    using that by (simp add: read_word_def mask16 or.commute)
  have 2: "\<exists>w. read_word m a = Inr w" if s: "ram_sized m" and r: "prg_rom m \<noteq> []"
  proof -
    obtain l where l: "read m a = Inr l"
      using read_total [OF s r] by blast
    obtain h where h: "read m ((a + 1) AND 0xFFFF) = Inr h"
      using read_total [OF s r] by blast
    show ?thesis using l h by (simp add: read_word_def)
  qed
  have 3: "\<exists>c. CPU_init m = Inr c \<and> PC c = 0x1234"
    if "read m 0xFFFC = Inr 0x34" and "read m 0xFFFD = Inr 0x12"
    using that by (simp add: CPU_init_def read_word_def mask16 push_bit_eq_mult)
  show ?thesis using 1 2 3 by blast
qed

lemma read_word_little_endian_example:
  "read_word \<lparr>ram = (replicate 2048 0)[0 := 0x56], prg_rom = [0x34, 0x12, 0x99, 0xAB]\<rparr> 0xFFFF
     = Inr 0x56AB \<and>
   (\<exists>w. read_word (Memory_init [0x34, 0x12]) 0x1FFF = Inr w) \<and>
   (\<exists>c. CPU_init (Memory_init [0x34, 0x12]) = Inr c \<and> PC c = 0x1234)"
proof -
  let ?m = "\<lparr>ram = (replicate 2048 0)[0 := 0x56], prg_rom = [0x34, 0x12, 0x99, 0xAB]\<rparr>"
  have a: "read ?m 0xFFFF = Inr 0xAB" "read ?m ((0xFFFF + 1) mod 0x10000) = Inr 0x56"
    by (simp_all add: read_def RAM_SIZE_def py_mod_def getitem_def)
  have b: "ram_sized (Memory_init [0x34, 0x12])" "prg_rom (Memory_init [0x34, 0x12]) \<noteq> []"
    by (simp_all add: ram_sized_def Memory_init_def RAM_SIZE_def)
  have c: "read (Memory_init [0x34, 0x12]) 0xFFFC = Inr 0x34"
          "read (Memory_init [0x34, 0x12]) 0xFFFD = Inr 0x12"
    by (simp_all add: read_def Memory_init_def py_mod_def getitem_def)
  have d: "(0xAB::int) OR push_bit 8 0x56 = 0x56AB"
    by (simp add: push_bit_eq_mult)
  show ?thesis
    using read_word_little_endian [of ?m "0xFFFF" "0xAB" "0x56"]
      read_word_little_endian [of "Memory_init [0x34, 0x12]" "0x1FFF"]
      read_word_little_endian [of "Memory_init [0x34, 0x12]"]
      a b c d
    by simp
qed

section \<open>Instruction executor\<close>

subsection \<open>One equation for each branch of \<open>step\<close>\<close>

lemma pc_twice: "((p + 1) mod 0x10000 + 1) mod 0x10000 = (p + 2) mod (0x10000::int)"
  by presburger

lemma pc_thrice: "((p + 1) mod 0x10000 + 2) mod 0x10000 = (p + 3) mod (0x10000::int)"
  by presburger

lemma step_nop:
  assumes "read (memory c) (PC c) = Inr opcode"
    and "opcode \<notin> {0xA9, 0xA2, 0xA0, 0x8D, 0x4C, 0xE8, 0xCA}"
  shows "step c = Inr (c\<lparr>PC := (PC c + 1) mod 0x10000\<rparr>)"
  using assms by (simp add: step_def Let_def mask16)

lemma step_LDA:
  assumes "read (memory c) (PC c) = Inr 0xA9"
    and "read (memory c) ((PC c + 1) mod 0x10000) = Inr v"
  shows "step c = Inr (set_flag (set_flag (c\<lparr>PC := (PC c + 2) mod 0x10000, A := v\<rparr>)
            0x02 (v = 0)) 0x80 (v AND 0x80 \<noteq> 0))"
  using assms by (simp add: step_def Let_def mask16 pc_twice set_flag_def)

lemma step_LDX:
  assumes "read (memory c) (PC c) = Inr 0xA2"
    and "read (memory c) ((PC c + 1) mod 0x10000) = Inr v"
  shows "step c = Inr (set_flag (set_flag (c\<lparr>PC := (PC c + 2) mod 0x10000, X := v\<rparr>)
            0x02 (v = 0)) 0x80 (v AND 0x80 \<noteq> 0))"
  using assms by (simp add: step_def Let_def mask16 pc_twice set_flag_def)

lemma step_LDY:
  assumes "read (memory c) (PC c) = Inr 0xA0"
    and "read (memory c) ((PC c + 1) mod 0x10000) = Inr v"
  shows "step c = Inr (set_flag (set_flag (c\<lparr>PC := (PC c + 2) mod 0x10000, Y := v\<rparr>)
            0x02 (v = 0)) 0x80 (v AND 0x80 \<noteq> 0))"
  using assms by (simp add: step_def Let_def mask16 pc_twice set_flag_def)

lemma step_STA:
  assumes "read (memory c) (PC c) = Inr 0x8D"
    and "read (memory c) ((PC c + 1) mod 0x10000) = Inr lo"
    and "read (memory c) ((PC c + 2) mod 0x10000) = Inr hi"
    and "write_mem (memory c) (lo OR push_bit 8 hi) (A c) = Inr m'"
  shows "step c = Inr (c\<lparr>PC := (PC c + 3) mod 0x10000, memory := m'\<rparr>)"
  using assms by (simp add: step_def Let_def mask16 pc_twice pc_thrice)

lemma step_JMP:
  assumes "read (memory c) (PC c) = Inr 0x4C"
    and "read (memory c) ((PC c + 1) mod 0x10000) = Inr lo"
    and "read (memory c) ((PC c + 2) mod 0x10000) = Inr hi"
  shows "step c = Inr (c\<lparr>PC := lo OR push_bit 8 hi\<rparr>)"
  using assms by (simp add: step_def Let_def mask16 pc_twice)

lemma step_INX:
  assumes "read (memory c) (PC c) = Inr 0xE8"
  shows "step c = Inr (set_flag (set_flag
            (c\<lparr>PC := (PC c + 1) mod 0x10000, X := (X c + 1) mod 0x100\<rparr>)
            0x02 ((X c + 1) mod 0x100 = 0)) 0x80 ((X c + 1) mod 0x100 AND 0x80 \<noteq> 0))"
  using assms by (simp add: step_def Let_def mask16 mask8 set_flag_def)

lemma step_DEX:
  assumes "read (memory c) (PC c) = Inr 0xCA"
  shows "step c = Inr (set_flag (set_flag
            (c\<lparr>PC := (PC c + 1) mod 0x10000, X := (X c - 1) mod 0x100\<rparr>)
            0x02 ((X c - 1) mod 0x100 = 0)) 0x80 ((X c - 1) mod 0x100 AND 0x80 \<noteq> 0))"
  using assms by (simp add: step_def Let_def mask16 mask8 set_flag_def)

subsection \<open>Zero and Negative flags\<close>

lemma set_flag_fields [simp]:
  "PC (set_flag c f b) = PC c" "A (set_flag c f b) = A c" "X (set_flag c f b) = X c"
  "Y (set_flag c f b) = Y c" "SP (set_flag c f b) = SP c"
  "memory (set_flag c f b) = memory c"
  by (simp_all add: set_flag_def)

lemma flag_bits:
  "(s::int) AND 0x02 \<noteq> 0 \<longleftrightarrow> bit s 1" "(s::int) AND 0x80 \<noteq> 0 \<longleftrightarrow> bit s 7"
  using and_exp_eq_0_iff_not_bit [of s 1] and_exp_eq_0_iff_not_bit [of s 7] by simp_all

lemma bit_or_exp: "bit ((s::int) OR 2 ^ k) j \<longleftrightarrow> bit s j \<or> j = k"
  by (auto simp: bit_simps)

lemma bit_and_not_exp: "bit ((s::int) AND NOT (2 ^ k)) j \<longleftrightarrow> bit s j \<and> j \<noteq> k"
  by (auto simp: bit_simps)

lemma bit_flag_simps:
  "bit ((s::int) OR 0x02) j \<longleftrightarrow> bit s j \<or> j = 1"
  "bit ((s::int) OR 0x80) j \<longleftrightarrow> bit s j \<or> j = 7"
  "bit ((s::int) AND NOT 0x02) j \<longleftrightarrow> bit s j \<and> j \<noteq> 1"
  "bit ((s::int) AND NOT 0x80) j \<longleftrightarrow> bit s j \<and> j \<noteq> 7"
  "bit ((s::int) AND - 3) j \<longleftrightarrow> bit s j \<and> j \<noteq> 1"
  "bit ((s::int) AND - 129) j \<longleftrightarrow> bit s j \<and> j \<noteq> 7"
  using bit_or_exp [of s 1 j] bit_or_exp [of s 7 j]
    bit_and_not_exp [of s 1 j] bit_and_not_exp [of s 7 j]
  by simp_all

lemma and_not_zn: "(s::int) AND NOT 0x82 = (s AND NOT 0x02) AND NOT 0x80"
proof -
  have "(0x82::int) = 0x02 OR 0x80" by simp
  then have "NOT (0x82::int) = NOT 0x02 AND NOT 0x80"
    by (simp only: bit.de_Morgan_disj)
  then show ?thesis by (simp only: and.assoc)
qed

lemma zn_flags:
  fixes c :: CPU and z n :: bool
  defines "c' \<equiv> set_flag (set_flag c 0x02 z) 0x80 n"
  shows "get_flag c' 0x02 = z" and "get_flag c' 0x80 = n"
    and "status c' AND NOT 0x82 = status c AND NOT 0x82"
proof -
  show "get_flag c' 0x02 = z"
    unfolding c'_def get_flag_def flag_bits
    by (cases z; cases n) (simp_all add: set_flag_def bit_flag_simps)
  show "get_flag c' 0x80 = n"
    unfolding c'_def get_flag_def flag_bits
    by (cases z; cases n) (simp_all add: set_flag_def bit_flag_simps)
  show "status c' AND NOT 0x82 = status c AND NOT 0x82"
    unfolding c'_def and_not_zn
    by (cases z; cases n) (auto simp: set_flag_def bit_eq_iff bit_flag_simps)
qed

lemma zn_flags_other:
  "status (set_flag (set_flag c 0x02 z) 0x80 n) AND - 131 = status c AND - 131"
  using zn_flags(3) [of c z n] by simp

subsection \<open>States the program reaches\<close>

text \<open>
  The statements about \<open>step\<close> below assume a memory with its 2048 RAM cells and a
  PRG-ROM that is not empty. Both hold of every CPU the program runs: \<^verbatim>\<open>Memory.__init__\<close>
  allocates the cells (\<open>ram_bytes_init\<close>), \<^verbatim>\<open>CPU.__init__\<close> raises on an empty PRG-ROM, and
  \<open>step\<close> always returns from such a state and keeps both.
\<close>

lemma CPU_init_well_formed:
  assumes "CPU_init m = Inr c"
  shows "memory c = m \<and> prg_rom (memory c) \<noteq> []"
proof -
  obtain lo where lo: "read m 0xFFFC = Inr lo" and mem: "memory c = m"
    using assms by (auto simp: CPU_init_def read_word_def and_then_eq_Inr)
  have "prg_rom m \<noteq> []"
  proof
    assume "prg_rom m = []"
    with lo show False by (simp add: read_def py_mod_def)
  qed
  with mem show ?thesis by simp
qed

lemma step_well_formed:
  assumes "ram_sized (memory c)" and "prg_rom (memory c) \<noteq> []"
  shows "\<exists>c'. step c = Inr c' \<and> ram_sized (memory c') \<and> prg_rom (memory c') = prg_rom (memory c)"
proof -
  obtain opcode where f: "read (memory c) (PC c) = Inr opcode"
    using read_total [OF assms] by blast
  obtain lo where lo: "read (memory c) ((PC c + 1) mod 0x10000) = Inr lo"
    using read_total [OF assms] by blast
  obtain hi where hi: "read (memory c) ((PC c + 2) mod 0x10000) = Inr hi"
    using read_total [OF assms] by blast
  obtain m' where w: "write_mem (memory c) (lo OR push_bit 8 hi) (A c) = Inr m'"
    and sm: "ram_sized m'" and pm: "prg_rom m' = prg_rom (memory c)"
    using write_mem_total [OF assms(1)] by blast
  consider "opcode = 0xA9" | "opcode = 0xA2" | "opcode = 0xA0" | "opcode = 0x8D"
    | "opcode = 0x4C" | "opcode = 0xE8" | "opcode = 0xCA"
    | "opcode \<notin> {0xA9, 0xA2, 0xA0, 0x8D, 0x4C, 0xE8, 0xCA}"
    by blast
  then show ?thesis
  proof cases
    case 1
    then show ?thesis using step_LDA [OF _ lo] f assms(1) by simp
  next
    case 2
    then show ?thesis using step_LDX [OF _ lo] f assms(1) by simp
  next
    case 3
    then show ?thesis using step_LDY [OF _ lo] f assms(1) by simp
  next
    case 4
    then show ?thesis using step_STA [OF _ lo hi w] f sm pm by simp
  next
    case 5
    then show ?thesis using step_JMP [OF _ lo hi] f assms(1) by simp
  next
    case 6
    then show ?thesis using step_INX f assms(1) by simp
  next
    case 7
    then show ?thesis using step_DEX f assms(1) by simp
  next
    case 8
    then show ?thesis using step_nop [OF f] assms(1) by simp
  qed
qed

subsection \<open>The claims about one step\<close>

text \<open>
  Claim C6: when the fetched opcode is BRK (0x00) or is not in the decode table, \<open>step\<close>
  raises nothing and acts as a NOP: A, X, Y, SP, the status byte, RAM and PRG-ROM are
  unchanged and PC advances by 1 modulo 0x10000.
\<close>

theorem unimplemented_opcode_is_nop:
  assumes "read (memory c) (PC c) = Inr opcode"
    and "opcode = 0x00 \<or> opcode \<notin> {0xA9, 0xA2, 0xA0, 0x8D, 0x4C, 0xEA, 0xE8, 0xCA, 0x00}"
  shows "\<exists>c'. step c = Inr c' \<and> PC c' = (PC c + 1) mod 0x10000 \<and>
           A c' = A c \<and> X c' = X c \<and> Y c' = Y c \<and> SP c' = SP c \<and> status c' = status c \<and>
           ram (memory c') = ram (memory c) \<and> prg_rom (memory c') = prg_rom (memory c)"
proof -
  have "opcode \<notin> {0xA9, 0xA2, 0xA0, 0x8D, 0x4C, 0xE8, 0xCA}"
    using assms(2) by auto
  then have "step c = Inr (c\<lparr>PC := (PC c + 1) mod 0x10000\<rparr>)"
    using assms(1) by (rule step_nop [rotated])
  then show ?thesis by simp
qed

theorem unimplemented_opcode_is_nop_witness:
  "(\<exists>c'. step \<lparr>memory = Memory_init [0xFF], PC = 0xFFFF, A = 1, X = 2, Y = 3, SP = 0xFD,
                  status = 0x24\<rparr> = Inr c' \<and>
      PC c' = 0 \<and> A c' = 1 \<and> X c' = 2 \<and> Y c' = 3 \<and> SP c' = 0xFD \<and> status c' = 0x24 \<and>
      memory c' = Memory_init [0xFF]) \<and>
   (\<exists>c'. step \<lparr>memory = Memory_init [0x00], PC = 0x8000, A = 1, X = 2, Y = 3, SP = 0xFD,
                  status = 0x24\<rparr> = Inr c' \<and>
      PC c' = 0x8001 \<and> A c' = 1 \<and> X c' = 2 \<and> Y c' = 3 \<and> SP c' = 0xFD \<and> status c' = 0x24 \<and>
      memory c' = Memory_init [0x00])"
proof -
  let ?c = "\<lparr>memory = Memory_init [0xFF], PC = 0xFFFF, A = 1, X = 2, Y = 3, SP = 0xFD,
             status = 0x24\<rparr>"
  let ?d = "\<lparr>memory = Memory_init [0x00], PC = 0x8000, A = 1, X = 2, Y = 3, SP = 0xFD,
             status = 0x24\<rparr>"
  have f: "read (memory ?c) (PC ?c) = Inr 0xFF" "read (memory ?d) (PC ?d) = Inr 0x00"
    by (simp_all add: read_def Memory_init_def py_mod_def getitem_def)
  have g: "(0xFF::int) = 0x00 \<or> (0xFF::int) \<notin> {0xA9, 0xA2, 0xA0, 0x8D, 0x4C, 0xEA, 0xE8, 0xCA, 0x00}"
    "(0x00::int) = 0x00 \<or> (0x00::int) \<notin> {0xA9, 0xA2, 0xA0, 0x8D, 0x4C, 0xEA, 0xE8, 0xCA, 0x00}"
    by simp_all
  show ?thesis
    using unimplemented_opcode_is_nop [OF f(1) g(1)] unimplemented_opcode_is_nop [OF f(2) g(2)]
    by (auto simp: Memory.equality)
qed

text \<open>
  The PC after one \<open>step\<close> of \<^verbatim>\<open>src/EMUNESV0.py\<close>, by opcode.
\<close>

lemma pc_advance_step:
  assumes "ram_sized (memory c)" and "prg_rom (memory c) \<noteq> []"
    and "read (memory c) (PC c) = Inr opcode"
  shows "\<exists>c'. step c = Inr c' \<and>
     (opcode \<in> {0xA9, 0xA2, 0xA0} \<longrightarrow> PC c' = (PC c + 2) mod 0x10000) \<and>
     (opcode = 0x8D \<longrightarrow> PC c' = (PC c + 3) mod 0x10000) \<and>
     (opcode = 0x4C \<longrightarrow>
        (\<exists>lo hi. read (memory c) ((PC c + 1) mod 0x10000) = Inr lo \<and>
                 read (memory c) ((PC c + 2) mod 0x10000) = Inr hi \<and>
                 PC c' = lo OR push_bit 8 hi)) \<and>
     (opcode \<in> {0xEA, 0xE8, 0xCA, 0x00} \<longrightarrow> PC c' = (PC c + 1) mod 0x10000)"
proof -
  obtain lo where lo: "read (memory c) ((PC c + 1) mod 0x10000) = Inr lo"
    using read_total [OF assms(1,2)] by blast
  obtain hi where hi: "read (memory c) ((PC c + 2) mod 0x10000) = Inr hi"
    using read_total [OF assms(1,2)] by blast
  obtain m' where w: "write_mem (memory c) (lo OR push_bit 8 hi) (A c) = Inr m'"
    using write_mem_total [OF assms(1)] by blast
  note f = assms(3)
  consider "opcode = 0xA9" | "opcode = 0xA2" | "opcode = 0xA0" | "opcode = 0x8D"
    | "opcode = 0x4C" | "opcode = 0xE8" | "opcode = 0xCA"
    | "opcode \<notin> {0xA9, 0xA2, 0xA0, 0x8D, 0x4C, 0xE8, 0xCA}"
    by blast
  then show ?thesis
  proof cases
    case 1
    then show ?thesis using step_LDA [OF _ lo] f by simp
  next
    case 2
    then show ?thesis using step_LDX [OF _ lo] f by simp
  next
    case 3
    then show ?thesis using step_LDY [OF _ lo] f by simp
  next
    case 4
    then show ?thesis using step_STA [OF _ lo hi w] f by simp
  next
    case 5
    then show ?thesis using step_JMP [OF _ lo hi] f lo hi by simp
  next
    case 6
    then show ?thesis using step_INX f by simp
  next
    case 7
    then show ?thesis using step_DEX f by simp
  next
    case 8
    then show ?thesis using step_nop [OF f] by auto
  qed
qed

text \<open>
  Claim C5: after a step that executes LDA, LDX, LDY, INX or DEX, for any operand and any
  starting register value, with \<open>r\<close> the new value of the register the instruction
  writes: the Zero flag (mask 0x02) is set iff \<open>r = 0\<close>, the Negative flag (mask 0x80) is
  bit 7 of \<open>r\<close>, and every other bit of the status byte is as before.
\<close>

theorem flag_correctness:
  assumes "ram_sized (memory c)" and "prg_rom (memory c) \<noteq> []"
    and "read (memory c) (PC c) = Inr opcode"
    and "opcode \<in> {0xA9, 0xA2, 0xA0, 0xE8, 0xCA}"
  shows "\<exists>c' r. step c = Inr c' \<and>
     r = (if opcode = 0xA9 then A c' else if opcode = 0xA0 then Y c' else X c') \<and>
     (opcode \<in> {0xA9, 0xA2, 0xA0} \<longrightarrow> read (memory c) ((PC c + 1) mod 0x10000) = Inr r) \<and>
     (opcode = 0xE8 \<longrightarrow> r = (X c + 1) mod 0x100) \<and>
     (opcode = 0xCA \<longrightarrow> r = (X c - 1) mod 0x100) \<and>
     (get_flag c' 0x02 \<longleftrightarrow> r = 0) \<and>
     (get_flag c' 0x80 \<longleftrightarrow> bit r 7) \<and>
     status c' AND NOT 0x82 = status c AND NOT 0x82"
proof -
  obtain v where v: "read (memory c) ((PC c + 1) mod 0x10000) = Inr v"
    using read_total [OF assms(1,2)] by blast
  note f = assms(3)
  consider "opcode = 0xA9" | "opcode = 0xA2" | "opcode = 0xA0" | "opcode = 0xE8"
    | "opcode = 0xCA"
    using assms(4) by blast
  then show ?thesis
  proof cases
    case 1
    then show ?thesis
      using step_LDA [OF _ v] f v by (simp add: zn_flags zn_flags_other flag_bits)
  next
    case 2
    then show ?thesis
      using step_LDX [OF _ v] f v by (simp add: zn_flags zn_flags_other flag_bits)
  next
    case 3
    then show ?thesis
      using step_LDY [OF _ v] f v by (simp add: zn_flags zn_flags_other flag_bits)
  next
    case 4
    then show ?thesis
      using step_INX f by (simp add: zn_flags zn_flags_other flag_bits)
  next
    case 5
    then show ?thesis
      using step_DEX f by (simp add: zn_flags zn_flags_other flag_bits)
  qed
qed

theorem flag_correctness_witness:
  "(\<exists>c'. step \<lparr>memory = Memory_init [0xA9, 0x80], PC = 0x8000, A = 0, X = 0, Y = 0, SP = 0xFD,
      status = 0x24\<rparr> = Inr c' \<and>
      A c' = 0x80 \<and> \<not> get_flag c' 0x02 \<and> get_flag c' 0x80 \<and>
      status c' AND NOT 0x82 = 0x24) \<and>
   (\<exists>c'. step \<lparr>memory = Memory_init [0xA2, 0x00], PC = 0x8000, A = 0, X = 5, Y = 0, SP = 0xFD,
      status = 0x24\<rparr> = Inr c' \<and>
      X c' = 0 \<and> get_flag c' 0x02 \<and> \<not> get_flag c' 0x80 \<and>
      status c' AND NOT 0x82 = 0x24) \<and>
   (\<exists>c'. step \<lparr>memory = Memory_init [0xA0, 0x7F], PC = 0x8000, A = 0, X = 0, Y = 0, SP = 0xFD,
      status = 0x24\<rparr> = Inr c' \<and>
      Y c' = 0x7F \<and> \<not> get_flag c' 0x02 \<and> \<not> get_flag c' 0x80 \<and>
      status c' AND NOT 0x82 = 0x24) \<and>
   (\<exists>c'. step \<lparr>memory = Memory_init [0xE8], PC = 0x8000, A = 0, X = 0xFF, Y = 0, SP = 0xFD,
      status = 0x24\<rparr> = Inr c' \<and>
      X c' = 0 \<and> get_flag c' 0x02 \<and> \<not> get_flag c' 0x80 \<and>
      status c' AND NOT 0x82 = 0x24) \<and>
   (\<exists>c'. step \<lparr>memory = Memory_init [0xCA], PC = 0x8000, A = 0, X = 0, Y = 0, SP = 0xFD,
      status = 0x24\<rparr> = Inr c' \<and>
      X c' = 0xFF \<and> \<not> get_flag c' 0x02 \<and> get_flag c' 0x80 \<and>
      status c' AND NOT 0x82 = 0x24)"
proof -
  let ?a = "\<lparr>memory = Memory_init [0xA9, 0x80], PC = 0x8000, A = 0, X = 0, Y = 0, SP = 0xFD,
      status = 0x24\<rparr>"
  let ?b = "\<lparr>memory = Memory_init [0xA2, 0x00], PC = 0x8000, A = 0, X = 5, Y = 0, SP = 0xFD,
      status = 0x24\<rparr>"
  let ?c = "\<lparr>memory = Memory_init [0xA0, 0x7F], PC = 0x8000, A = 0, X = 0, Y = 0, SP = 0xFD,
      status = 0x24\<rparr>"
  let ?d = "\<lparr>memory = Memory_init [0xE8], PC = 0x8000, A = 0, X = 0xFF, Y = 0, SP = 0xFD,
      status = 0x24\<rparr>"
  let ?e = "\<lparr>memory = Memory_init [0xCA], PC = 0x8000, A = 0, X = 0, Y = 0, SP = 0xFD,
      status = 0x24\<rparr>"
  have s:
      "ram_sized (memory ?a)"
      "ram_sized (memory ?b)"
      "ram_sized (memory ?c)"
      "ram_sized (memory ?d)"
      "ram_sized (memory ?e)"
    by (simp_all add: ram_sized_def Memory_init_def RAM_SIZE_def)
  have r:
      "prg_rom (memory ?a) \<noteq> []"
      "prg_rom (memory ?b) \<noteq> []"
      "prg_rom (memory ?c) \<noteq> []"
      "prg_rom (memory ?d) \<noteq> []"
      "prg_rom (memory ?e) \<noteq> []"
    by (simp_all add: Memory_init_def)
  have f:
      "read (memory ?a) (PC ?a) = Inr 0xA9"
      "read (memory ?b) (PC ?b) = Inr 0xA2"
      "read (memory ?c) (PC ?c) = Inr 0xA0"
      "read (memory ?d) (PC ?d) = Inr 0xE8"
      "read (memory ?e) (PC ?e) = Inr 0xCA"
    by (simp_all add: read_def Memory_init_def py_mod_def getitem_def)
  have i:
      "(0xA9::int) \<in> {0xA9, 0xA2, 0xA0, 0xE8, 0xCA}"
      "(0xA2::int) \<in> {0xA9, 0xA2, 0xA0, 0xE8, 0xCA}"
      "(0xA0::int) \<in> {0xA9, 0xA2, 0xA0, 0xE8, 0xCA}"
      "(0xE8::int) \<in> {0xA9, 0xA2, 0xA0, 0xE8, 0xCA}"
      "(0xCA::int) \<in> {0xA9, 0xA2, 0xA0, 0xE8, 0xCA}"
    by simp_all
  have o:
      "read (memory ?a) 0x8001 = Inr 0x80"
      "read (memory ?b) 0x8001 = Inr 0x00"
      "read (memory ?c) 0x8001 = Inr 0x7F"
    by (simp_all add: read_def Memory_init_def py_mod_def getitem_def)
  have 1: "\<exists>c'. step ?a = Inr c' \<and> A c' = 0x80 \<and> \<not> get_flag c' 0x02 \<and> get_flag c' 0x80 \<and>
      status c' AND NOT 0x82 = 0x24"
    using flag_correctness [OF s(1) r(1) f(1) i(1)] o by (auto simp: bit_iff_odd)
  have 2: "\<exists>c'. step ?b = Inr c' \<and> X c' = 0 \<and> get_flag c' 0x02 \<and> \<not> get_flag c' 0x80 \<and>
      status c' AND NOT 0x82 = 0x24"
    using flag_correctness [OF s(2) r(2) f(2) i(2)] o by (auto simp: bit_iff_odd)
  have 3: "\<exists>c'. step ?c = Inr c' \<and> Y c' = 0x7F \<and> \<not> get_flag c' 0x02 \<and> \<not> get_flag c' 0x80 \<and>
      status c' AND NOT 0x82 = 0x24"
    using flag_correctness [OF s(3) r(3) f(3) i(3)] o by (auto simp: bit_iff_odd)
  have 4: "\<exists>c'. step ?d = Inr c' \<and> X c' = 0 \<and> get_flag c' 0x02 \<and> \<not> get_flag c' 0x80 \<and>
      status c' AND NOT 0x82 = 0x24"
    using flag_correctness [OF s(4) r(4) f(4) i(4)] o by (auto simp: bit_iff_odd)
  have 5: "\<exists>c'. step ?e = Inr c' \<and> X c' = 0xFF \<and> \<not> get_flag c' 0x02 \<and> get_flag c' 0x80 \<and>
      status c' AND NOT 0x82 = 0x24"
    using flag_correctness [OF s(5) r(5) f(5) i(5)] o by (auto simp: bit_iff_odd)
  show ?thesis using 1 2 3 4 5 by blast
qed

subsection \<open>The step of EMUAI4K.py\<close>

text \<open>
  This \<open>step\<close> treats every opcode outside 0xA9, 0x8D, 0x4C as a NOP, LDX, LDY, INX and
  DEX among them (the source: "Only a few opcodes for demo"). On the opcodes it shares
  with the full decode table it computes the same state, unless the second operand byte
  lies at 0x10000.
\<close>

lemma step_4k_nop:
  assumes "read (memory c) (PC c) = Inr opcode" and "opcode \<notin> {0xA9, 0x8D, 0x4C}"
  shows "step_4k c = Inr (c\<lparr>PC := (PC c + 1) mod 0x10000\<rparr>)"
  using assms by (simp add: step_4k_def Let_def mask16)

lemma step_4k_agrees:
  assumes "read (memory c) (PC c) = Inr opcode"
    and "opcode \<notin> {0xA2, 0xA0, 0xE8, 0xCA}"
    and "(PC c + 1) mod 0x10000 \<noteq> 0xFFFF"
  shows "step_4k c = step c"
proof -
  have "0 \<le> (PC c + 1) mod 0x10000" and "(PC c + 1) mod 0x10000 < 0x10000"
    by simp_all
  with assms(3) have "((PC c + 1) mod 0x10000 + 1) mod 0x10000 = (PC c + 1) mod 0x10000 + 1"
    by simp
  then show ?thesis
    using assms(1,2) by (simp add: step_4k_def step_def Let_def mask16)
qed

lemma step_4k_LDA:
  assumes "read (memory c) (PC c) = Inr 0xA9"
    and "read (memory c) ((PC c + 1) mod 0x10000) = Inr v"
  shows "step_4k c = Inr (set_flag (set_flag (c\<lparr>PC := (PC c + 2) mod 0x10000, A := v\<rparr>)
            0x02 (v = 0)) 0x80 (v AND 0x80 \<noteq> 0))"
  using assms by (simp add: step_4k_def Let_def mask16 pc_twice set_flag_def)

lemma step_4k_STA:
  assumes "read (memory c) (PC c) = Inr 0x8D"
    and "read (memory c) ((PC c + 1) mod 0x10000) = Inr lo"
    and "read (memory c) ((PC c + 1) mod 0x10000 + 1) = Inr hi"
    and "write_mem (memory c) (lo OR push_bit 8 hi) (A c) = Inr m'"
  shows "step_4k c = Inr (c\<lparr>PC := (PC c + 3) mod 0x10000, memory := m'\<rparr>)"
  using assms by (simp add: step_4k_def Let_def mask16 pc_thrice)

lemma step_4k_JMP:
  assumes "read (memory c) (PC c) = Inr 0x4C"
    and "read (memory c) ((PC c + 1) mod 0x10000) = Inr lo"
    and "read (memory c) ((PC c + 1) mod 0x10000 + 1) = Inr hi"
  shows "step_4k c = Inr (c\<lparr>PC := lo OR push_bit 8 hi\<rparr>)"
  using assms by (simp add: step_4k_def Let_def mask16)

lemma operand_inside:
  assumes "(p + 1) mod 0x10000 \<noteq> (0xFFFF::int)"
  shows "(p + 1) mod 0x10000 + 1 = (p + 2) mod 0x10000"
proof -
  have "0 \<le> (p + 1) mod 0x10000" and "(p + 1) mod 0x10000 < 0x10000"
    by simp_all
  with assms have "((p + 1) mod 0x10000 + 1) mod 0x10000 = (p + 1) mod 0x10000 + 1"
    by simp
  then show ?thesis by (simp add: pc_twice)
qed

lemma pc_advance_step_4k:
  assumes "ram_sized (memory c)" and "prg_rom (memory c) \<noteq> []"
    and "read (memory c) (PC c) = Inr opcode"
  shows "\<exists>c'. step_4k c = Inr c' \<and>
     (opcode = 0xA9 \<longrightarrow> PC c' = (PC c + 2) mod 0x10000) \<and>
     (opcode = 0x8D \<longrightarrow> PC c' = (PC c + 3) mod 0x10000) \<and>
     (opcode = 0x4C \<and> (PC c + 1) mod 0x10000 \<noteq> 0xFFFF \<longrightarrow>
        (\<exists>lo hi. read (memory c) ((PC c + 1) mod 0x10000) = Inr lo \<and>
                 read (memory c) ((PC c + 2) mod 0x10000) = Inr hi \<and>
                 PC c' = lo OR push_bit 8 hi)) \<and>
     (opcode \<notin> {0xA9, 0x8D, 0x4C} \<longrightarrow> PC c' = (PC c + 1) mod 0x10000)"
proof -
  obtain lo where lo: "read (memory c) ((PC c + 1) mod 0x10000) = Inr lo"
    using read_total [OF assms(1,2)] by blast
  obtain hi where hi: "read (memory c) ((PC c + 1) mod 0x10000 + 1) = Inr hi"
    using read_total [OF assms(1,2)] by blast
  obtain m' where w: "write_mem (memory c) (lo OR push_bit 8 hi) (A c) = Inr m'"
    using write_mem_total [OF assms(1)] by blast
  note f = assms(3)
  consider "opcode = 0xA9" | "opcode = 0x8D" | "opcode = 0x4C"
    | "opcode \<notin> {0xA9, 0x8D, 0x4C}"
    by blast
  then show ?thesis
  proof cases
    case 1
    then show ?thesis using step_4k_LDA [OF _ lo] f by simp
  next
    case 2
    then show ?thesis using step_4k_STA [OF _ lo hi w] f by simp
  next
    case 3
    then show ?thesis
      using step_4k_JMP [OF _ lo hi] f lo hi by (auto simp: operand_inside)
  next
    case 4
    then show ?thesis using step_4k_nop [OF f] by auto
  qed
qed

subsection \<open>The step of EMU4K4.2.25$1.0.py\<close>

lemma step_4k4_nop:
  assumes "read (memory c) (PC c) = Inr opcode" and "opcode \<notin> {0xA9, 0x8D, 0x4C}"
  shows "step_4k4 c = Inr (c\<lparr>PC := (PC c + 1) mod 0x10000\<rparr>)"
  using assms by (simp add: step_4k4_def Let_def mask16)

lemma step_4k4_agrees:
  assumes "read (memory c) (PC c) = Inr opcode" and "opcode \<notin> {0xA2, 0xA0, 0xE8, 0xCA}"
  shows "step_4k4 c = step c"
  using assms by (simp add: step_4k4_def step_def Let_def)

lemma pc_advance_step_4k4:
  assumes "ram_sized (memory c)" and "prg_rom (memory c) \<noteq> []"
    and "read (memory c) (PC c) = Inr opcode"
  shows "\<exists>c'. step_4k4 c = Inr c' \<and>
     (opcode = 0xA9 \<longrightarrow> PC c' = (PC c + 2) mod 0x10000) \<and>
     (opcode = 0x8D \<longrightarrow> PC c' = (PC c + 3) mod 0x10000) \<and>
     (opcode = 0x4C \<longrightarrow>
        (\<exists>lo hi. read (memory c) ((PC c + 1) mod 0x10000) = Inr lo \<and>
                 read (memory c) ((PC c + 2) mod 0x10000) = Inr hi \<and>
                 PC c' = lo OR push_bit 8 hi)) \<and>
     (opcode \<notin> {0xA9, 0x8D, 0x4C} \<longrightarrow> PC c' = (PC c + 1) mod 0x10000)"
proof (cases "opcode \<in> {0xA9, 0x8D, 0x4C}")
  case True
  then have "step_4k4 c = step c"
    using step_4k4_agrees [OF assms(3)] by auto
  then show ?thesis
    using pc_advance_step [OF assms] True by auto
next
  case False
  then show ?thesis
    using step_4k4_nop [OF assms(3)] by auto
qed

subsection \<open>PC advance in the three files\<close>

text \<open>
  Claim C3 as stated (a step that fetches 0xA9, 0xA2 or 0xA0 advances PC by 2; 0x8D by 3;
  0x4C sets PC to the operand word; 0xEA, 0xE8, 0xCA and 0x00 advance PC by 1) fails on the
  \<^verbatim>\<open>CPU.step\<close> of \<^verbatim>\<open>src/EMUAI4K.py\<close> and of \<^verbatim>\<open>src/EMU4K4.2.25$1.0.py\<close>, which have no branch for
  0xA2: from \<open>PC = 0x8000\<close> with A2 07 in the PRG-ROM both leave \<open>PC = 0x8001\<close>, not 0x8002, and
  X unchanged.
\<close>

theorem pc_advance_law_counterexample:
  "read (Memory_init [0xA2, 0x07]) 0x8000 = Inr 0xA2 \<and>
   step_4k \<lparr>memory = Memory_init [0xA2, 0x07], PC = 0x8000, A = 0, X = 0, Y = 0, SP = 0xFD,
            status = 0x24\<rparr>
     = Inr \<lparr>memory = Memory_init [0xA2, 0x07], PC = 0x8001, A = 0, X = 0, Y = 0, SP = 0xFD,
            status = 0x24\<rparr> \<and>
   step_4k4 \<lparr>memory = Memory_init [0xA2, 0x07], PC = 0x8000, A = 0, X = 0, Y = 0, SP = 0xFD,
             status = 0x24\<rparr>
     = Inr \<lparr>memory = Memory_init [0xA2, 0x07], PC = 0x8001, A = 0, X = 0, Y = 0, SP = 0xFD,
            status = 0x24\<rparr>"
  by (simp add: step_4k_def step_4k4_def read_def Memory_init_def py_mod_def getitem_def)

text \<open>
  Claim C3, amended, for every state whose memory has its 2048 RAM cells and a non-empty
  PRG-ROM. In \<^verbatim>\<open>src/EMUNESV0.py\<close>: a step that fetches 0xA9, 0xA2 or 0xA0 returns with PC
  advanced by 2 modulo 0x10000; 0x8D by 3; 0x4C with PC set to the little-endian word of
  the two operand bytes; 0xEA, 0xE8, 0xCA and 0x00 by 1. In \<^verbatim>\<open>src/EMU4K4.2.25$1.0.py\<close> and
  \<^verbatim>\<open>src/EMUAI4K.py\<close>, whose decode table has only 0xA9, 0x8D, 0x4C, 0xEA and 0x00: 0xA9 advances
  PC by 2, 0x8D by 3, 0x4C sets PC to the operand word (in \<^verbatim>\<open>src/EMUAI4K.py\<close> when the operand
  does not end at 0x10000), and every other opcode, 0xA2, 0xA0, 0xE8 and 0xCA among them,
  advances PC by 1.
\<close>

theorem pc_advance_law:
  assumes "ram_sized (memory c)" and "prg_rom (memory c) \<noteq> []"
    and "read (memory c) (PC c) = Inr opcode"
  shows
    "(\<exists>c'. step c = Inr c' \<and>
       (opcode \<in> {0xA9, 0xA2, 0xA0} \<longrightarrow> PC c' = (PC c + 2) mod 0x10000) \<and>
       (opcode = 0x8D \<longrightarrow> PC c' = (PC c + 3) mod 0x10000) \<and>
       (opcode = 0x4C \<longrightarrow>
          (\<exists>lo hi. read (memory c) ((PC c + 1) mod 0x10000) = Inr lo \<and>
                   read (memory c) ((PC c + 2) mod 0x10000) = Inr hi \<and>
                   PC c' = lo OR push_bit 8 hi)) \<and>
       (opcode \<in> {0xEA, 0xE8, 0xCA, 0x00} \<longrightarrow> PC c' = (PC c + 1) mod 0x10000)) \<and>
     (\<exists>c'. step_4k4 c = Inr c' \<and>
       (opcode = 0xA9 \<longrightarrow> PC c' = (PC c + 2) mod 0x10000) \<and>
       (opcode = 0x8D \<longrightarrow> PC c' = (PC c + 3) mod 0x10000) \<and>
       (opcode = 0x4C \<longrightarrow>
          (\<exists>lo hi. read (memory c) ((PC c + 1) mod 0x10000) = Inr lo \<and>
                   read (memory c) ((PC c + 2) mod 0x10000) = Inr hi \<and>
                   PC c' = lo OR push_bit 8 hi)) \<and>
       (opcode \<notin> {0xA9, 0x8D, 0x4C} \<longrightarrow> PC c' = (PC c + 1) mod 0x10000)) \<and>
     (\<exists>c'. step_4k c = Inr c' \<and>
       (opcode = 0xA9 \<longrightarrow> PC c' = (PC c + 2) mod 0x10000) \<and>
       (opcode = 0x8D \<longrightarrow> PC c' = (PC c + 3) mod 0x10000) \<and>
       (opcode = 0x4C \<and> (PC c + 1) mod 0x10000 \<noteq> 0xFFFF \<longrightarrow>
          (\<exists>lo hi. read (memory c) ((PC c + 1) mod 0x10000) = Inr lo \<and>
                   read (memory c) ((PC c + 2) mod 0x10000) = Inr hi \<and>
                   PC c' = lo OR push_bit 8 hi)) \<and>
       (opcode \<notin> {0xA9, 0x8D, 0x4C} \<longrightarrow> PC c' = (PC c + 1) mod 0x10000))"
  using pc_advance_step [OF assms] pc_advance_step_4k4 [OF assms] pc_advance_step_4k [OF assms]
  by (intro conjI)

theorem pc_advance_law_witness:
  "(\<exists>c'. step \<lparr>memory = Memory_init [0xA9], PC = 0xFFFF, A = 0, X = 0, Y = 0, SP = 0xFD,
        status = 0x24\<rparr> = Inr c' \<and> PC c' = 1) \<and>
   (\<exists>c'. step_4k4 \<lparr>memory = Memory_init [0xA9], PC = 0xFFFF, A = 0, X = 0, Y = 0, SP = 0xFD,
        status = 0x24\<rparr> = Inr c' \<and> PC c' = 1) \<and>
   (\<exists>c'. step_4k \<lparr>memory = Memory_init [0xA9], PC = 0xFFFF, A = 0, X = 0, Y = 0, SP = 0xFD,
        status = 0x24\<rparr> = Inr c' \<and> PC c' = 1) \<and>
   (\<exists>c'. step \<lparr>memory = Memory_init [0x8D], PC = 0x8000, A = 0, X = 0, Y = 0, SP = 0xFD,
        status = 0x24\<rparr> = Inr c' \<and> PC c' = 0x8003) \<and>
   (\<exists>c'. step_4k4 \<lparr>memory = Memory_init [0x8D], PC = 0x8000, A = 0, X = 0, Y = 0, SP = 0xFD,
        status = 0x24\<rparr> = Inr c' \<and> PC c' = 0x8003) \<and>
   (\<exists>c'. step_4k \<lparr>memory = Memory_init [0x8D], PC = 0x8000, A = 0, X = 0, Y = 0, SP = 0xFD,
        status = 0x24\<rparr> = Inr c' \<and> PC c' = 0x8003) \<and>
   (\<exists>c'. step \<lparr>memory = Memory_init [0x4C, 0x00, 0x80], PC = 0x8000, A = 0, X = 0, Y = 0, SP = 0xFD,
        status = 0x24\<rparr> = Inr c' \<and> PC c' = 0x8000) \<and>
   (\<exists>c'. step_4k4 \<lparr>memory = Memory_init [0x4C, 0x00, 0x80], PC = 0x8000, A = 0, X = 0, Y = 0, SP = 0xFD,
        status = 0x24\<rparr> = Inr c' \<and> PC c' = 0x8000) \<and>
   (\<exists>c'. step_4k \<lparr>memory = Memory_init [0x4C, 0x00, 0x80], PC = 0x8000, A = 0, X = 0, Y = 0, SP = 0xFD,
        status = 0x24\<rparr> = Inr c' \<and> PC c' = 0x8000) \<and>
   (\<exists>c'. step \<lparr>memory = Memory_init [0xE8], PC = 0x8000, A = 0, X = 0, Y = 0, SP = 0xFD,
        status = 0x24\<rparr> = Inr c' \<and> PC c' = 0x8001) \<and>
   (\<exists>c'. step_4k4 \<lparr>memory = Memory_init [0xE8], PC = 0x8000, A = 0, X = 0, Y = 0, SP = 0xFD,
        status = 0x24\<rparr> = Inr c' \<and> PC c' = 0x8001) \<and>
   (\<exists>c'. step_4k \<lparr>memory = Memory_init [0xE8], PC = 0x8000, A = 0, X = 0, Y = 0, SP = 0xFD,
        status = 0x24\<rparr> = Inr c' \<and> PC c' = 0x8001) \<and>
   (\<exists>c'. step \<lparr>memory = Memory_init [0xA2, 0x07], PC = 0x8000, A = 0, X = 0, Y = 0, SP = 0xFD,
        status = 0x24\<rparr> = Inr c' \<and> PC c' = 0x8002) \<and>
   (\<exists>c'. step_4k4 \<lparr>memory = Memory_init [0xA2, 0x07], PC = 0x8000, A = 0, X = 0, Y = 0, SP = 0xFD,
        status = 0x24\<rparr> = Inr c' \<and> PC c' = 0x8001) \<and>
   (\<exists>c'. step_4k \<lparr>memory = Memory_init [0xA2, 0x07], PC = 0x8000, A = 0, X = 0, Y = 0, SP = 0xFD,
        status = 0x24\<rparr> = Inr c' \<and> PC c' = 0x8001)"
proof -
  let ?a = "\<lparr>memory = Memory_init [0xA9], PC = 0xFFFF, A = 0, X = 0, Y = 0, SP = 0xFD,
        status = 0x24\<rparr>"
  let ?b = "\<lparr>memory = Memory_init [0x8D], PC = 0x8000, A = 0, X = 0, Y = 0, SP = 0xFD,
        status = 0x24\<rparr>"
  let ?c = "\<lparr>memory = Memory_init [0x4C, 0x00, 0x80], PC = 0x8000, A = 0, X = 0, Y = 0, SP = 0xFD,
        status = 0x24\<rparr>"
  let ?d = "\<lparr>memory = Memory_init [0xE8], PC = 0x8000, A = 0, X = 0, Y = 0, SP = 0xFD,
        status = 0x24\<rparr>"
  let ?e = "\<lparr>memory = Memory_init [0xA2, 0x07], PC = 0x8000, A = 0, X = 0, Y = 0, SP = 0xFD,
        status = 0x24\<rparr>"
  have s:
      "ram_sized (memory ?a)"
      "ram_sized (memory ?b)"
      "ram_sized (memory ?c)"
      "ram_sized (memory ?d)"
      "ram_sized (memory ?e)"
    by (simp_all add: ram_sized_def Memory_init_def RAM_SIZE_def)
  have r:
      "prg_rom (memory ?a) \<noteq> []"
      "prg_rom (memory ?b) \<noteq> []"
      "prg_rom (memory ?c) \<noteq> []"
      "prg_rom (memory ?d) \<noteq> []"
      "prg_rom (memory ?e) \<noteq> []"
    by (simp_all add: Memory_init_def)
  have f:
      "read (memory ?a) (PC ?a) = Inr 0xA9"
      "read (memory ?b) (PC ?b) = Inr 0x8D"
      "read (memory ?c) (PC ?c) = Inr 0x4C"
      "read (memory ?d) (PC ?d) = Inr 0xE8"
      "read (memory ?e) (PC ?e) = Inr 0xA2"
    by (simp_all add: read_def Memory_init_def py_mod_def getitem_def)
  have o: "read (Memory_init [0x4C, 0x00, 0x80]) 0x8001 = Inr 0x00"
    "read (Memory_init [0x4C, 0x00, 0x80]) 0x8002 = Inr 0x80"
    by (simp_all add: read_def Memory_init_def py_mod_def getitem_def)
  have 1: "(\<exists>c'. step ?a = Inr c' \<and> PC c' = 1) \<and>
     (\<exists>c'. step_4k4 ?a = Inr c' \<and> PC c' = 1) \<and>
     (\<exists>c'. step_4k ?a = Inr c' \<and> PC c' = 1)"
    using pc_advance_law [OF s(1) r(1) f(1)] o by (auto simp: push_bit_eq_mult)
  have 2: "(\<exists>c'. step ?b = Inr c' \<and> PC c' = 0x8003) \<and>
     (\<exists>c'. step_4k4 ?b = Inr c' \<and> PC c' = 0x8003) \<and>
     (\<exists>c'. step_4k ?b = Inr c' \<and> PC c' = 0x8003)"
    using pc_advance_law [OF s(2) r(2) f(2)] o by (auto simp: push_bit_eq_mult)
  have 3: "(\<exists>c'. step ?c = Inr c' \<and> PC c' = 0x8000) \<and>
     (\<exists>c'. step_4k4 ?c = Inr c' \<and> PC c' = 0x8000) \<and>
     (\<exists>c'. step_4k ?c = Inr c' \<and> PC c' = 0x8000)"
    using pc_advance_law [OF s(3) r(3) f(3)] o by (auto simp: push_bit_eq_mult)
  have 4: "(\<exists>c'. step ?d = Inr c' \<and> PC c' = 0x8001) \<and>
     (\<exists>c'. step_4k4 ?d = Inr c' \<and> PC c' = 0x8001) \<and>
     (\<exists>c'. step_4k ?d = Inr c' \<and> PC c' = 0x8001)"
    using pc_advance_law [OF s(4) r(4) f(4)] o by (auto simp: push_bit_eq_mult)
  have 5: "(\<exists>c'. step ?e = Inr c' \<and> PC c' = 0x8002) \<and>
     (\<exists>c'. step_4k4 ?e = Inr c' \<and> PC c' = 0x8001) \<and>
     (\<exists>c'. step_4k ?e = Inr c' \<and> PC c' = 0x8001)"
    using pc_advance_law [OF s(5) r(5) f(5)] o by (auto simp: push_bit_eq_mult)
  show ?thesis using 1 2 3 4 5 by blast
qed

section \<open>iNES loader\<close>

lemma load_ines_rom_bad_signature:
  "take 4 contents \<noteq> [0x4E, 0x45, 0x53, 0x1A] \<Longrightarrow> load_ines_rom contents = Inl ValueError"
  by (simp add: load_ines_rom_def file_read_def take_take)

lemma load_ines_rom_body:
  assumes "length rest = 9" and "0 \<le> h4" and "0 \<le> h5"
  shows "load_ines_rom ([0x4E, 0x45, 0x53, 0x1A, h4, h5, h6] @ rest @ body) =
         (let b = (if h6 AND 0x04 \<noteq> 0 then drop 512 body else body)
          in Inr (take (nat (16384 * h4)) b,
                  take (nat (8192 * h5)) (drop (nat (16384 * h4)) b)))"
  using assms
  by (auto simp: load_ines_rom_def file_read_def getitem_def Let_def)

lemma load_rom_4k_body:
  assumes "length hdr = 16" and "hdr ! 4 = 1" and "hdr ! 5 = 1"
    and "length prg = 16384" and "length chr = 8192"
  shows "load_rom_4k (hdr @ prg @ chr) = Inr (prg, chr)"
  using assms by (simp add: load_rom_4k_def file_read_def getitem_def)

text \<open>
  Claim C7 as stated (a buffer whose first four bytes are not 4E 45 53 1A raises a
  FormatError) fails on the inline loader of \<^verbatim>\<open>src/EMUAI4K.py\<close>, which never looks at
  those bytes: a buffer that starts with 4D 45 53 1A is read like any other.
\<close>

theorem ines_format_validation_counterexample:
  "take 4 ([0x4D, 0x45, 0x53, 0x1A, 1, 1, 0] @ replicate 9 0 @
       replicate 16384 0xEA @ replicate 8192 0x55) \<noteq> [0x4E, 0x45, 0x53, 0x1A :: int] \<and>
   load_rom_4k ([0x4D, 0x45, 0x53, 0x1A, 1, 1, 0] @ replicate 9 0 @
       replicate 16384 0xEA @ replicate 8192 0x55)
     = Inr (replicate 16384 0xEA, replicate 8192 0x55)"
  by (simp add: load_rom_4k_def file_read_def getitem_def)

text \<open>
  Claim C7, amended. \<^verbatim>\<open>load_ines_rom\<close> of \<^verbatim>\<open>src/EMUNESV0.py\<close> and \<^verbatim>\<open>src/EMU4K4.2.25$1.0.py\<close>: a
  buffer whose first four bytes are not 4E 45 53 1A is rejected with the loader's
  ValueError (the spec's FormatError); a buffer with the signature and header bytes 4 and
  5 equal to 1 gives back exactly the 16384 PRG bytes and 8192 CHR bytes that follow the
  header when bit 2 of header byte 6 is clear (byte 6 = 0 among these), and exactly those
  that follow 512 further bytes when bit 2 is set. The inline loader of \<^verbatim>\<open>src/EMUAI4K.py\<close>
  makes no signature check and no trainer skip: after any 16-byte header with bytes 4 and
  5 equal to 1 it gives back the 16384 and 8192 bytes that follow the header.
\<close>

theorem ines_format_validation:
  "(take 4 contents \<noteq> [0x4E, 0x45, 0x53, 0x1A] \<longrightarrow> load_ines_rom contents = Inl ValueError) \<and>
   (length rest = 9 \<and> length prg = 16384 \<and> length chr = 8192 \<and> h6 AND 0x04 = 0 \<longrightarrow>
      load_ines_rom ([0x4E, 0x45, 0x53, 0x1A, 1, 1, h6] @ rest @ prg @ chr) = Inr (prg, chr)) \<and>
   (length rest = 9 \<and> length trainer = 512 \<and> length prg = 16384 \<and> length chr = 8192 \<and>
    t6 AND 0x04 \<noteq> 0 \<longrightarrow>
      load_ines_rom ([0x4E, 0x45, 0x53, 0x1A, 1, 1, t6] @ rest @ trainer @ prg @ chr)
        = Inr (prg, chr)) \<and>
   (length hdr = 16 \<and> hdr ! 4 = 1 \<and> hdr ! 5 = 1 \<and> length prg = 16384 \<and>
    length chr = 8192 \<longrightarrow>
      load_rom_4k (hdr @ prg @ chr) = Inr (prg, chr))"
proof -
  have 1: "load_ines_rom ([0x4E, 0x45, 0x53, 0x1A, 1, 1, h6] @ rest @ prg @ chr) = Inr (prg, chr)"
    if "length rest = 9" and "length prg = 16384" and "length chr = 8192"
      and "h6 AND 0x04 = 0"
    using that load_ines_rom_body [of rest 1 1 h6 "prg @ chr"] by simp
  have 2: "load_ines_rom ([0x4E, 0x45, 0x53, 0x1A, 1, 1, t6] @ rest @ trainer @ prg @ chr)
             = Inr (prg, chr)"
    if "length rest = 9" and "length trainer = 512" and "length prg = 16384"
      and "length chr = 8192" and "t6 AND 0x04 \<noteq> 0"
    using that load_ines_rom_body [of rest 1 1 t6 "trainer @ prg @ chr"] by simp
  show ?thesis
    using load_ines_rom_bad_signature [of contents] 1 2 load_rom_4k_body [of hdr prg chr]
    by blast
qed

theorem ines_format_validation_witness:
  "load_ines_rom [0x4D, 0x45, 0x53, 0x1A, 1, 1, 0] = Inl ValueError \<and>
   load_ines_rom ([0x4E, 0x45, 0x53, 0x1A, 1, 1, 0] @ replicate 9 0 @
       replicate 16384 0xEA @ replicate 8192 0x55)
     = Inr (replicate 16384 0xEA, replicate 8192 0x55) \<and>
   load_ines_rom ([0x4E, 0x45, 0x53, 0x1A, 1, 1, 0xFB] @ replicate 9 0 @
       replicate 16384 0xEA @ replicate 8192 0x55)
     = Inr (replicate 16384 0xEA, replicate 8192 0x55) \<and>
   load_ines_rom ([0x4E, 0x45, 0x53, 0x1A, 1, 1, 0x04] @ replicate 9 0 @ replicate 512 0xFF @
       replicate 16384 0xEA @ replicate 8192 0x55)
     = Inr (replicate 16384 0xEA, replicate 8192 0x55) \<and>
   load_rom_4k (([0x4D, 0x45, 0x53, 0x1A, 1, 1, 0x04] @ replicate 9 0) @
       replicate 16384 0xEA @ replicate 8192 0x55)
     = Inr (replicate 16384 0xEA, replicate 8192 0x55)"
proof -
  have a: "(0::int) AND 0x04 = 0" "(0xFB::int) AND 0x04 = 0" "(0x04::int) AND 0x04 \<noteq> 0"
    by simp_all
  have h: "length ([0x4D, 0x45, 0x53, 0x1A, 1, 1, 0x04] @ replicate 9 (0::int)) = 16"
    "([0x4D, 0x45, 0x53, 0x1A, 1, 1, 0x04] @ replicate 9 (0::int)) ! 4 = 1"
    "([0x4D, 0x45, 0x53, 0x1A, 1, 1, 0x04] @ replicate 9 (0::int)) ! 5 = 1"
    by simp_all
  have 1: "load_ines_rom [0x4D, 0x45, 0x53, 0x1A, 1, 1, 0] = Inl ValueError"
    using ines_format_validation [of "[0x4D, 0x45, 0x53, 0x1A, 1, 1, 0]"] by simp
  have 2: "load_ines_rom ([0x4E, 0x45, 0x53, 0x1A, 1, 1, 0] @ replicate 9 0 @
       replicate 16384 0xEA @ replicate 8192 0x55)
     = Inr (replicate 16384 0xEA, replicate 8192 0x55)"
    using ines_format_validation [of _ "replicate 9 0" "replicate 16384 0xEA"
        "replicate 8192 0x55" 0] a(1)
    by simp
  have 3: "load_ines_rom ([0x4E, 0x45, 0x53, 0x1A, 1, 1, 0xFB] @ replicate 9 0 @
       replicate 16384 0xEA @ replicate 8192 0x55)
     = Inr (replicate 16384 0xEA, replicate 8192 0x55)"
    using ines_format_validation [of _ "replicate 9 0" "replicate 16384 0xEA"
        "replicate 8192 0x55" "0xFB"] a(2)
    by simp
  have 4: "load_ines_rom ([0x4E, 0x45, 0x53, 0x1A, 1, 1, 0x04] @ replicate 9 0 @
       replicate 512 0xFF @ replicate 16384 0xEA @ replicate 8192 0x55)
     = Inr (replicate 16384 0xEA, replicate 8192 0x55)"
    using ines_format_validation [of _ "replicate 9 0" "replicate 16384 0xEA"
        "replicate 8192 0x55" _ "replicate 512 0xFF" "0x04"] a(3)
    by simp
  have 5: "load_rom_4k (([0x4D, 0x45, 0x53, 0x1A, 1, 1, 0x04] @ replicate 9 0) @
       replicate 16384 0xEA @ replicate 8192 0x55)
     = Inr (replicate 16384 0xEA, replicate 8192 0x55)"
    using ines_format_validation [of _ _ "replicate 16384 0xEA" "replicate 8192 0x55" _ _ _
        "[0x4D, 0x45, 0x53, 0x1A, 1, 1, 0x04] @ replicate 9 0"] h
    by simp
  show ?thesis using 1 2 3 4 5 by blast
qed

section \<open>Running a program\<close>

lemma read_above_ram:
  "0x2000 \<le> a \<Longrightarrow> read (m\<lparr>ram := r\<rparr>) a = read m a"
  by (simp add: read_def)

lemma CPU_init_fields:
  assumes "CPU_init m = Inr c"
  shows "memory c = m" and "A c = 0" and "X c = 0" and "Y c = 0"
    and "read_word m 0xFFFC = Inr (PC c)"
  using assms by (auto simp: CPU_init_def and_then_eq_Inr)

text \<open>
  Claim C8: on a memory that reads the bytes A9 05 8D 00 02 4C 00 80 from 0x8000 on, with
  a CPU constructed over it whose reset vector gave \<open>PC = 0x8000\<close>, three steps return a
  state with \<open>A = 5\<close>, \<open>read 0x0200 = 5\<close> and \<open>PC = 0x8000\<close>.
\<close>

theorem end_to_end_scenario:
  assumes sized: "ram_sized m"
    and prog: "read m 0x8000 = Inr 0xA9" "read m 0x8001 = Inr 0x05"
      "read m 0x8002 = Inr 0x8D" "read m 0x8003 = Inr 0x00" "read m 0x8004 = Inr 0x02"
      "read m 0x8005 = Inr 0x4C" "read m 0x8006 = Inr 0x00" "read m 0x8007 = Inr 0x80"
    and init: "CPU_init m = Inr c" and reset: "PC c = 0x8000"
  shows "\<exists>c'. steps 3 c = Inr c' \<and> A c' = 5 \<and> read (memory c') 0x0200 = Inr 5 \<and>
           PC c' = 0x8000"
proof -
  have mem: "memory c = m"
    using init by (rule CPU_init_fields)
  define c1 where "c1 = set_flag (set_flag (c\<lparr>PC := 0x8002, A := 5\<rparr>) 0x02 False) 0x80 False"
  define m' where "m' = m\<lparr>ram := (ram m)[0x200 := 5]\<rparr>"
  define c2 where "c2 = c1\<lparr>PC := 0x8005, memory := m'\<rparr>"
  define c3 where "c3 = c2\<lparr>PC := 0x8000\<rparr>"
  have s1: "step c = Inr c1"
    using step_LDA [of c 5] prog mem reset by (simp add: c1_def)
  have w: "write_mem m 0x200 5 = Inr m'"
    using write_mem_ram [OF sized, of "0x200" 5] by (simp add: m'_def)
  have s2: "step c1 = Inr c2"
    using step_STA [of c1 0 2 m'] prog mem w
    by (simp add: c1_def c2_def reset push_bit_eq_mult)
  have s3: "step c2 = Inr c3"
    using step_JMP [of c2 0 "0x80"] prog
    by (simp add: c2_def c3_def m'_def read_above_ram push_bit_eq_mult)
  have run: "steps 3 c = Inr c3"
    using s1 s2 s3 by (simp add: numeral_3_eq_3)
  have "ram_sized m'"
    using sized by (simp add: m'_def ram_sized_def)
  then have "read m' 0x0200 = Inr 5"
    using sized by (simp add: read_ram m'_def ram_sized_def)
  then show ?thesis
    using run by (simp add: c3_def c2_def c1_def)
qed

theorem end_to_end_scenario_witness:
  "\<exists>c c'. CPU_init (Memory_init [0xA9, 0x05, 0x8D, 0x00, 0x02, 0x4C, 0x00, 0x80,
                                  0, 0, 0, 0, 0x00, 0x80, 0, 0]) = Inr c \<and>
     PC c = 0x8000 \<and> steps 3 c = Inr c' \<and> A c' = 5 \<and> read (memory c') 0x0200 = Inr 5 \<and>
     PC c' = 0x8000"
proof -
  let ?m = "Memory_init [0xA9, 0x05, 0x8D, 0x00, 0x02, 0x4C, 0x00, 0x80,
                         0, 0, 0, 0, 0x00, 0x80, 0, 0]"
  let ?c = "\<lparr>memory = ?m, PC = 0x8000, A = 0, X = 0, Y = 0, SP = 0xFD, status = 0x24\<rparr>"
  have s: "ram_sized ?m"
    by (simp add: ram_sized_def Memory_init_def RAM_SIZE_def)
  have p: "read ?m 0x8000 = Inr 0xA9" "read ?m 0x8001 = Inr 0x05"
      "read ?m 0x8002 = Inr 0x8D" "read ?m 0x8003 = Inr 0x00" "read ?m 0x8004 = Inr 0x02"
      "read ?m 0x8005 = Inr 0x4C" "read ?m 0x8006 = Inr 0x00" "read ?m 0x8007 = Inr 0x80"
    by (simp_all add: read_def Memory_init_def py_mod_def getitem_def)
  have v: "read ?m 0xFFFC = Inr 0x00" "read ?m 0xFFFD = Inr 0x80"
    by (simp_all add: read_def Memory_init_def py_mod_def getitem_def)
  have i: "CPU_init ?m = Inr ?c"
    using v by (simp add: CPU_init_def read_word_def mask16 push_bit_eq_mult)
  have r: "PC ?c = 0x8000"
    by simp
  show ?thesis
    using end_to_end_scenario [OF s p i r] i by auto
qed

section \<open>Register ranges\<close>

lemma read_byte:
  assumes "ram_bytes m" and "list_all is_byte (prg_rom m)" and "read m a = Inr v"
  shows "is_byte v"
proof -
  have sized: "ram_sized m" and cells: "list_all is_byte (ram m)"
    using assms(1) by (simp_all add: ram_bytes_def)
  consider "a < 0x2000" | "0x2000 \<le> a" "a < 0x8000" | "0x8000 \<le> a"
    by linarith
  then show ?thesis
  proof cases
    case 1
    then have "v = ram m ! nat (a mod 0x800)"
      using read_ram [OF sized, of a] assms(3) by simp
    moreover have "nat (a mod 0x800) < length (ram m)"
      using sized by (simp add: ram_sized_def)
    ultimately show ?thesis
      using cells by (simp add: list_all_length)
  next
    case 2
    then show ?thesis
      using read_unmapped [of a m] assms(3) by (simp add: is_byte_def)
  next
    case 3
    have ne: "prg_rom m \<noteq> []"
    proof
      assume "prg_rom m = []"
      with 3 assms(3) show False by (simp add: read_def py_mod_def)
    qed
    then have "v = prg_rom m ! nat ((a - 0x8000) mod int (length (prg_rom m)))"
      using read_rom [OF _ 3, of m] assms(3) by simp
    moreover have "nat ((a - 0x8000) mod int (length (prg_rom m))) < length (prg_rom m)"
      using ne by (simp add: nat_less_iff)
    ultimately show ?thesis
      using assms(2) by (simp add: list_all_length)
  qed
qed

lemma word_range:
  assumes "is_byte lo" and "is_byte hi"
  shows "0 \<le> lo OR push_bit 8 hi \<and> lo OR push_bit 8 hi \<le> 0xFFFF"
proof -
  have l: "0 \<le> lo" "lo < 2 ^ 16" and h: "0 \<le> push_bit 8 hi" "push_bit 8 hi < 2 ^ 16"
    using assms by (simp_all add: is_byte_def push_bit_eq_mult)
  have "lo OR push_bit 8 hi < 2 ^ 16"
    using l h by (intro OR_upper)
  moreover have "0 \<le> lo OR push_bit 8 hi"
    using l h by simp
  ultimately show ?thesis by simp
qed

lemma is_byte_mod: "is_byte (k mod 0x100)"
  by (simp add: is_byte_def)

lemma cpu_inv_set_flag [simp]: "cpu_inv (set_flag c f b) = cpu_inv c"
  by (simp add: cpu_inv_def)

lemma step_cpu_inv:
  assumes "cpu_inv c"
  shows "\<exists>c'. step c = Inr c' \<and> cpu_inv c'"
proof -
  have rb: "ram_bytes (memory c)" and pb: "list_all is_byte (prg_rom (memory c))"
    and ne: "prg_rom (memory c) \<noteq> []"
    using assms by (simp_all add: cpu_inv_def)
  have sized: "ram_sized (memory c)"
    using rb by (simp add: ram_bytes_def)
  obtain opcode where f: "read (memory c) (PC c) = Inr opcode"
    using read_total [OF sized ne] by blast
  obtain lo where lo: "read (memory c) ((PC c + 1) mod 0x10000) = Inr lo"
    using read_total [OF sized ne] by blast
  obtain hi where hi: "read (memory c) ((PC c + 2) mod 0x10000) = Inr hi"
    using read_total [OF sized ne] by blast
  obtain m' where w: "write_mem (memory c) (lo OR push_bit 8 hi) (A c) = Inr m'"
    and pm: "prg_rom m' = prg_rom (memory c)"
    using write_mem_total [OF sized] by blast
  have bl: "is_byte lo" and bh: "is_byte hi"
    using read_byte [OF rb pb lo] read_byte [OF rb pb hi] .
  have rb': "ram_bytes m'"
    using ram_bytes_write_mem [OF rb w] .
  consider "opcode = 0xA9" | "opcode = 0xA2" | "opcode = 0xA0" | "opcode = 0x8D"
    | "opcode = 0x4C" | "opcode = 0xE8" | "opcode = 0xCA"
    | "opcode \<notin> {0xA9, 0xA2, 0xA0, 0x8D, 0x4C, 0xE8, 0xCA}"
    by blast
  then show ?thesis
  proof cases
    case 1
    then show ?thesis
      using step_LDA [OF _ lo] f assms bl by (simp add: cpu_inv_def)
  next
    case 2
    then show ?thesis
      using step_LDX [OF _ lo] f assms bl by (simp add: cpu_inv_def)
  next
    case 3
    then show ?thesis
      using step_LDY [OF _ lo] f assms bl by (simp add: cpu_inv_def)
  next
    case 4
    then show ?thesis
      using step_STA [OF _ lo hi w] f assms rb' pm by (simp add: cpu_inv_def)
  next
    case 5
    then show ?thesis
      using step_JMP [OF _ lo hi] f assms word_range [OF bl bh] by (simp add: cpu_inv_def)
  next
    case 6
    then show ?thesis
      using step_INX f assms by (simp add: cpu_inv_def is_byte_mod)
  next
    case 7
    then show ?thesis
      using step_DEX f assms by (simp add: cpu_inv_def is_byte_mod)
  next
    case 8
    then show ?thesis
      using step_nop [OF f] assms by (simp add: cpu_inv_def)
  qed
qed

lemma steps_cpu_inv:
  "cpu_inv c \<Longrightarrow> \<exists>c'. steps n c = Inr c' \<and> cpu_inv c'"
proof (induction n arbitrary: c)
  case 0
  then show ?case by simp
next
  case (Suc n)
  obtain c1 where "step c = Inr c1" and "cpu_inv c1"
    using step_cpu_inv [OF Suc.prems] by blast
  then show ?case
    using Suc.IH [of c1] by simp
qed

lemma CPU_init_cpu_inv:
  assumes "ram_bytes m" and "list_all is_byte (prg_rom m)" and "CPU_init m = Inr c"
  shows "cpu_inv c"
proof -
  obtain lo hi where lo: "read m 0xFFFC = Inr lo" and hi: "read m 0xFFFD = Inr hi"
    and pc: "PC c = push_bit 8 hi OR lo"
    using CPU_init_fields(5) [OF assms(3)]
    by (auto simp: read_word_def and_then_eq_Inr mask16)
  have "prg_rom m \<noteq> []"
  proof
    assume "prg_rom m = []"
    with lo show False by (simp add: read_def py_mod_def)
  qed
  moreover have "0 \<le> PC c \<and> PC c \<le> 0xFFFF"
    using word_range [OF read_byte [OF assms(1,2) lo] read_byte [OF assms(1,2) hi]] pc
    by (simp add: or.commute)
  ultimately show ?thesis
    using assms CPU_init_fields(1-4) [OF assms(3)] by (simp add: cpu_inv_def is_byte_def)
qed

text \<open>
  Claim C9: over any memory whose RAM cells and PRG-ROM entries are bytes, from the state
  the constructor returns, every number of steps returns a state with A, X, Y in
  [0, 255] and PC in [0, 0xFFFF].
\<close>

theorem register_ranges_preserved:
  assumes "ram_bytes m" and "list_all is_byte (prg_rom m)" and "CPU_init m = Inr c"
  shows "\<exists>c'. steps n c = Inr c' \<and>
           0 \<le> A c' \<and> A c' \<le> 255 \<and> 0 \<le> X c' \<and> X c' \<le> 255 \<and> 0 \<le> Y c' \<and> Y c' \<le> 255 \<and>
           0 \<le> PC c' \<and> PC c' \<le> 0xFFFF"
  using steps_cpu_inv [OF CPU_init_cpu_inv [OF assms], of n]
  by (auto simp: cpu_inv_def is_byte_def)

theorem register_ranges_preserved_witness:
  "\<exists>c c'. CPU_init (Memory_init [0xE8, 0x4C, 0x00, 0x80, 0, 0, 0, 0,
                                   0, 0, 0, 0, 0x00, 0x80, 0, 0]) = Inr c \<and>
     PC c = 0x8000 \<and> steps 5 c = Inr c' \<and>
     0 \<le> A c' \<and> A c' \<le> 255 \<and> 0 \<le> X c' \<and> X c' \<le> 255 \<and> 0 \<le> Y c' \<and> Y c' \<le> 255 \<and>
     0 \<le> PC c' \<and> PC c' \<le> 0xFFFF"
proof -
  let ?m = "Memory_init [0xE8, 0x4C, 0x00, 0x80, 0, 0, 0, 0, 0, 0, 0, 0, 0x00, 0x80, 0, 0]"
  let ?c = "\<lparr>memory = ?m, PC = 0x8000, A = 0, X = 0, Y = 0, SP = 0xFD, status = 0x24\<rparr>"
  have b: "ram_bytes ?m"
    by (rule ram_bytes_init)
  have p: "list_all is_byte (prg_rom ?m)"
    by (simp add: Memory_init_def is_byte_def)
  have v: "read ?m 0xFFFC = Inr 0x00" "read ?m 0xFFFD = Inr 0x80"
    by (simp_all add: read_def Memory_init_def py_mod_def getitem_def)
  have i: "CPU_init ?m = Inr ?c"
    using v by (simp add: CPU_init_def read_word_def mask16 push_bit_eq_mult)
  show ?thesis
    using register_ranges_preserved [OF b p i, of 5] i by auto
qed

end
